theory Spec2Isabelle
  imports Main
begin

section \<open>Data model\<close>

text \<open>
  Package \<^verbatim>\<open>models\<close>. A UUID is an opaque identifier (a natural number); a
  \<^verbatim>\<open>time.Time\<close> is an instant in nanoseconds. Amounts and balances are Go \<^verbatim>\<open>int64\<close>
  and PostgreSQL \<^verbatim>\<open>BIGINT\<close> values: they are integers here, the 64-bit range is
  \<open>in_int64\<close>, Go's wrapping negation is \<open>neg64\<close>, and the store refuses an update
  whose result leaves the range (PostgreSQL raises an error where Go would wrap).
  The \<^verbatim>\<open>Metadata\<close> field of a transaction and the time stamps of an account are never
  read by the services and are left out. A \<^verbatim>\<open>time.Duration\<close> is an \<^verbatim>\<open>int64\<close> count of
  nanoseconds: the product \<^verbatim>\<open>time.Duration(hours) * time.Hour\<close> wraps around (\<open>wrap64\<close>),
  which it does beyond 2562047 hours. A \<^verbatim>\<open>time.Time\<close> counts seconds in an \<^verbatim>\<open>int64\<close>
  beside the nanoseconds, so \<^verbatim>\<open>Add\<close> of a duration to a reading of the clock is the sum.
\<close>

type_synonym uuid = nat
type_synonym time = int

datatype TransactionType = AUTH_HOLD | CAPTURE | VOID | REFUND

datatype TransactionStatus = ACTIVE | COMPLETED | EXPIRED

record Transaction =
  ID :: uuid
  AccountID :: uuid
  Type :: TransactionType
  AmountCents :: int
  Currency :: string
  ReferenceID :: "uuid option"
  Status :: TransactionStatus
  ExpiresAt :: "time option"
  CreatedAt :: time

record Account =
  AcctID :: uuid
  AccountNumber :: string
  CVV :: string
  ExpiryMonth :: int
  ExpiryYear :: int
  BalanceCents :: int
  AvailableBalanceCents :: int

record IdempotencyKey =
  Key :: string
  RequestPath :: string
  ResponseBody :: string
  ResponseStatus :: int
  StoredAt :: time

definition in_int64 :: "int \<Rightarrow> bool" where
  "in_int64 x = (- 9223372036854775808 \<le> x \<and> x \<le> 9223372036854775807)"

definition neg64 :: "int \<Rightarrow> int" where
  "neg64 x = (if x = - 9223372036854775808 then - 9223372036854775808 else - x)"

definition wrap64 :: "int \<Rightarrow> int" where
  "wrap64 x = (x + 9223372036854775808) mod 18446744073709551616 - 9223372036854775808"

definition hour :: int where
  "hour = 3600000000000"

subsection \<open>Errors\<close>

text \<open>
  A Go \<^verbatim>\<open>error\<close> returned by a service is either a \<^verbatim>\<open>*ServiceError\<close> with its code and
  message, or another error (\<^verbatim>\<open>fmt.Errorf("failed to create capture: %w", err)\<close>) whose
  chain holds no \<^verbatim>\<open>ServiceError\<close>. Messages built with \<^verbatim>\<open>%v\<close> keep their fixed part.
  A repository error is \<^verbatim>\<open>models.ErrDuplicateTransaction\<close>, no row, or any other
  database failure.
\<close>

datatype go_error = ServiceError string string | UntypedError string

datatype repo_error = ErrDuplicateTransaction | ErrNoRows | ErrDB

abbreviation ErrCodeInvalidCard :: string where "ErrCodeInvalidCard \<equiv> ''invalid_card''"
abbreviation ErrCodeInvalidCVV :: string where "ErrCodeInvalidCVV \<equiv> ''invalid_cvv''"
abbreviation ErrCodeInvalidAmount :: string where "ErrCodeInvalidAmount \<equiv> ''invalid_amount''"
abbreviation ErrCodeCardExpired :: string where "ErrCodeCardExpired \<equiv> ''card_expired''"
abbreviation ErrCodeInsufficientFunds :: string where
  "ErrCodeInsufficientFunds \<equiv> ''insufficient_funds''"
abbreviation ErrCodeAccountNotFound :: string where
  "ErrCodeAccountNotFound \<equiv> ''account_not_found''"
abbreviation ErrCodeAuthNotFound :: string where
  "ErrCodeAuthNotFound \<equiv> ''authorization_not_found''"
abbreviation ErrCodeAuthExpired :: string where
  "ErrCodeAuthExpired \<equiv> ''authorization_expired''"
abbreviation ErrCodeAuthAlreadyUsed :: string where
  "ErrCodeAuthAlreadyUsed \<equiv> ''authorization_already_used''"
abbreviation ErrCodeAlreadyCaptured :: string where
  "ErrCodeAlreadyCaptured \<equiv> ''already_captured''"
abbreviation ErrCodeAlreadyVoided :: string where "ErrCodeAlreadyVoided \<equiv> ''already_voided''"
abbreviation ErrCodeAlreadyRefunded :: string where
  "ErrCodeAlreadyRefunded \<equiv> ''already_refunded''"
abbreviation ErrCodeAmountMismatch :: string where
  "ErrCodeAmountMismatch \<equiv> ''amount_mismatch''"
abbreviation ErrCodeCaptureNotFound :: string where
  "ErrCodeCaptureNotFound \<equiv> ''capture_not_found''"
abbreviation ErrCodeInternalError :: string where
  "ErrCodeInternalError \<equiv> ''internal_error''"


subsection \<open>What a call reads from outside the store\<close>

text \<open>
  One service call reads the clock, draws a UUID and talks to the database. The clock is
  read by \<^verbatim>\<open>ValidateExpiry\<close> (year and month), then for the expiry (\<open>now\<close>), then for the
  creation stamp (\<open>stamp\<close>); \<open>newUUID\<close> is the value of \<^verbatim>\<open>uuid.New()\<close>. Every database
  call can fail for reasons outside the program: \<open>failing\<close> lists the calls that do, as the
  repository mocks of the unit tests make single calls fail.
\<close>

datatype db_call =
  CallBeginTx | CallCommit | CallFindAccount | CallFindTransaction | CallFindByReference
  | CallCreate | CallUpdateStatus | CallAdjustBalances | CallIdemGet | CallIdemStore

record env =
  clockYear :: int
  clockMonth :: int
  now :: time
  stamp :: time
  newUUID :: uuid
  failing :: "db_call list"

definition fails :: "env \<Rightarrow> db_call \<Rightarrow> bool" where
  "fails e c = (c \<in> set (failing e))"

section \<open>The store\<close>

text \<open>
  The tables \<^verbatim>\<open>accounts\<close> and \<^verbatim>\<open>transactions\<close> of the migration, as lists of rows in
  the order of insertion (the table \<^verbatim>\<open>idempotency_keys\<close> is a list of its own, with the
  middleware). A service call runs in one database transaction: it returns the store it
  commits, or an error and the store stays as it was (rollback). A row lock has no effect
  on one call running alone, so the \<^verbatim>\<open>ForUpdate\<close> lookups are the plain ones.
\<close>

record store =
  accounts :: "Account list"
  transactions :: "Transaction list"

subsection \<open>Account repository\<close>

definition FindByAccountNumber :: "env \<Rightarrow> store \<Rightarrow> string \<Rightarrow> repo_error + Account" where
  "FindByAccountNumber e s accountNumber =
     (if fails e CallFindAccount then Inl ErrDB
      else case find (\<lambda>a. AccountNumber a = accountNumber) (accounts s) of
             None \<Rightarrow> Inl ErrNoRows
           | Some account \<Rightarrow> Inr account)"

text \<open>
  Modelled from the spec: \<^verbatim>\<open>FindByAccountNumberForUpdate\<close> is called by
  \<^verbatim>\<open>performAuthorization\<close> and is missing from the repository file; it is
  \<^verbatim>\<open>find_by_number_for_update\<close>, the same lookup holding a row lock.
\<close>

definition FindByAccountNumberForUpdate :: "env \<Rightarrow> store \<Rightarrow> string \<Rightarrow> repo_error + Account" where
  "FindByAccountNumberForUpdate e s accountNumber = FindByAccountNumber e s accountNumber"

definition adjust_row :: "uuid \<Rightarrow> int \<Rightarrow> int \<Rightarrow> Account \<Rightarrow> Account" where
  "adjust_row accountID balanceDelta availableBalanceDelta a =
     (if AcctID a = accountID
      then a\<lparr>BalanceCents := BalanceCents a + balanceDelta,
             AvailableBalanceCents := AvailableBalanceCents a + availableBalanceDelta\<rparr>
      else a)"

text \<open>
  \<^verbatim>\<open>UPDATE accounts SET balance_cents = balance_cents + $2, available_balance_cents =
  available_balance_cents + $3 WHERE id = $1\<close>: an error of the statement (a failing
  database, or a \<^verbatim>\<open>BIGINT\<close> result out of range), then \<^verbatim>\<open>rowsAffected == 0\<close>.
\<close>

definition out_of_range :: "store \<Rightarrow> uuid \<Rightarrow> int \<Rightarrow> int \<Rightarrow> bool" where
  "out_of_range s accountID balanceDelta availableBalanceDelta =
     list_ex (\<lambda>a. AcctID a = accountID \<and>
                  \<not> (in_int64 (BalanceCents a + balanceDelta) \<and>
                     in_int64 (AvailableBalanceCents a + availableBalanceDelta)))
       (accounts s)"

definition AdjustBalances :: "env \<Rightarrow> store \<Rightarrow> uuid \<Rightarrow> int \<Rightarrow> int \<Rightarrow> repo_error + store" where
  "AdjustBalances e s accountID balanceDelta availableBalanceDelta =
     (if fails e CallAdjustBalances then Inl ErrDB
      else if out_of_range s accountID balanceDelta availableBalanceDelta then Inl ErrDB
      else if \<not> list_ex (\<lambda>a. AcctID a = accountID) (accounts s) then Inl ErrNoRows
      else Inr (s\<lparr>accounts :=
                  map (adjust_row accountID balanceDelta availableBalanceDelta) (accounts s)\<rparr>))"

subsection \<open>Transaction repository\<close>

text \<open>
  Modelled from the spec: the transaction repository (\<^verbatim>\<open>Create\<close>, \<^verbatim>\<open>FindByID\<close>,
  \<^verbatim>\<open>FindByIDForUpdate\<close>, \<^verbatim>\<open>FindByReferenceID\<close>, \<^verbatim>\<open>UpdateStatus\<close>) is missing from the
  sources; only its tests and the migration are there. \<^verbatim>\<open>Create\<close> inserts, and returns
  \<^verbatim>\<open>ErrDuplicateTransaction\<close> when a row of type CAPTURE, VOID or REFUND with the same
  non-null reference exists (the partial unique index of the migration); the primary key
  and the foreign key on \<^verbatim>\<open>account_id\<close> of the migration make it fail otherwise.
  \<^verbatim>\<open>UpdateStatus\<close> fails when no row has the id, as its test expects.
\<close>

definition FindByID :: "env \<Rightarrow> store \<Rightarrow> uuid \<Rightarrow> repo_error + Transaction" where
  "FindByID e s txnID =
     (if fails e CallFindTransaction then Inl ErrDB
      else case find (\<lambda>t. ID t = txnID) (transactions s) of
             None \<Rightarrow> Inl ErrNoRows
           | Some txn \<Rightarrow> Inr txn)"

definition FindByIDForUpdate :: "env \<Rightarrow> store \<Rightarrow> uuid \<Rightarrow> repo_error + Transaction" where
  "FindByIDForUpdate e s txnID = FindByID e s txnID"

definition FindByReferenceID ::
  "env \<Rightarrow> store \<Rightarrow> uuid \<Rightarrow> TransactionType \<Rightarrow> repo_error + Transaction option" where
  "FindByReferenceID e s referenceID txnType =
     (if fails e CallFindByReference then Inl ErrDB
      else Inr (find (\<lambda>t. ReferenceID t = Some referenceID \<and> Type t = txnType)
                     (transactions s)))"

definition reference_conflict :: "Transaction list \<Rightarrow> Transaction \<Rightarrow> bool" where
  "reference_conflict rows txn =
     ((Type txn = CAPTURE \<or> Type txn = VOID \<or> Type txn = REFUND) \<and>
      ReferenceID txn \<noteq> None \<and>
      list_ex (\<lambda>t. ReferenceID t = ReferenceID txn \<and> Type t = Type txn) rows)"

definition Create :: "env \<Rightarrow> store \<Rightarrow> Transaction \<Rightarrow> repo_error + store" where
  "Create e s txn =
     (if fails e CallCreate then Inl ErrDB
      else if reference_conflict (transactions s) txn then Inl ErrDuplicateTransaction
      else if list_ex (\<lambda>t. ID t = ID txn) (transactions s) then Inl ErrDB
      else if \<not> list_ex (\<lambda>a. AcctID a = AccountID txn) (accounts s) then Inl ErrDB
      else Inr (s\<lparr>transactions := transactions s @ [txn]\<rparr>))"

definition set_status :: "uuid \<Rightarrow> TransactionStatus \<Rightarrow> Transaction \<Rightarrow> Transaction" where
  "set_status txnID newStatus t = (if ID t = txnID then t\<lparr>Status := newStatus\<rparr> else t)"

definition UpdateStatus :: "env \<Rightarrow> store \<Rightarrow> uuid \<Rightarrow> TransactionStatus \<Rightarrow> repo_error + store" where
  "UpdateStatus e s txnID newStatus =
     (if fails e CallUpdateStatus then Inl ErrDB
      else if \<not> list_ex (\<lambda>t. ID t = txnID) (transactions s) then Inl ErrNoRows
      else Inr (s\<lparr>transactions := map (set_status txnID newStatus) (transactions s)\<rparr>))"

section \<open>Validators\<close>

text \<open>
  \<^verbatim>\<open>ValidateLuhn\<close>, \<^verbatim>\<open>ValidateExpiry\<close>, \<^verbatim>\<open>ValidateCVV\<close> and \<^verbatim>\<open>ValidateAmount\<close> of
  package \<^verbatim>\<open>service\<close>. A Go \<^verbatim>\<open>error\<close> result is an option: \<open>None\<close> is \<^verbatim>\<open>nil\<close>,
  \<open>Some msg\<close> the error with its message. A Go string is a list of bytes; ranging over
  it yields runes, and a rune of a multi-byte sequence is never in \<^verbatim>\<open>'0'..'9'\<close>, so the
  comparison on bytes selects the same digits.
\<close>

definition is_digit :: "char \<Rightarrow> bool" where
  "is_digit r = ((48::nat) \<le> of_char r \<and> of_char r \<le> (57::nat))"

text \<open>The first loop of \<^verbatim>\<open>ValidateLuhn\<close>: \<^verbatim>\<open>digits = append(digits, int(r-'0'))\<close>.\<close>

fun luhn_digits :: "string \<Rightarrow> int list" where
  "luhn_digits [] = []"
| "luhn_digits (r # rs) =
     (if is_digit r then (int (of_char r) - 48) # luhn_digits rs else luhn_digits rs)"

text \<open>
  The second loop, \<^verbatim>\<open>for i := len(digits) - 1; i >= 0; i--\<close>: the list argument is the
  digits still to visit, last digit first.
\<close>

fun luhn_loop :: "int list \<Rightarrow> bool \<Rightarrow> int \<Rightarrow> int" where
  "luhn_loop [] isSecond sum0 = sum0"
| "luhn_loop (d # ds) isSecond sum0 =
     (let digit = (if isSecond then (if d * 2 > 9 then d * 2 - 9 else d * 2) else d)
      in luhn_loop ds (\<not> isSecond) (sum0 + digit))"

definition ValidateLuhn :: "string \<Rightarrow> string option" where
  "ValidateLuhn cardNumber =
     (let digits = luhn_digits cardNumber in
      if length digits < 13 \<or> length digits > 19
        then Some ''invalid card number length: must be 13-19 digits''
      else if luhn_loop (rev digits) False 0 mod 10 \<noteq> 0
        then Some ''invalid card number: failed Luhn check''
      else None)"

text \<open>
  \<^verbatim>\<open>ValidateExpiry\<close> reads \<^verbatim>\<open>time.Now()\<close> once; its year and month are parameters. The
  messages that print the year or the month keep their fixed part.
\<close>

definition ValidateExpiry :: "int \<Rightarrow> int \<Rightarrow> int \<Rightarrow> int \<Rightarrow> string option" where
  "ValidateExpiry currentYear currentMonth expiryMonth expiryYear =
     (if expiryMonth < 1 \<or> expiryMonth > 12
        then Some ''invalid month: must be between 1 and 12''
      else if expiryYear < currentYear then Some ''card expired: year is in the past''
      else if expiryYear = currentYear \<and> expiryMonth < currentMonth then Some ''card expired''
      else None)"

definition ValidateCVV :: "string \<Rightarrow> string option" where
  "ValidateCVV cvv =
     (if length cvv < 3 \<or> length cvv > 4 then Some ''invalid CVV: must be 3 or 4 digits''
      else if list_ex (\<lambda>r. \<not> is_digit r) cvv
        then Some ''invalid CVV: must contain only digits''
      else None)"

definition ValidateAmount :: "int \<Rightarrow> string option" where
  "ValidateAmount amount =
     (if amount \<le> 0 then Some ''invalid amount: must be greater than 0'' else None)"

subsection \<open>The Luhn checksum as the specification words it\<close>

text \<open>
  The specification's wording, for comparison with the loops above: the decimal digits of
  the input in order, and the sum over positions counted from the right (position 0 is the
  last digit) in which every second digit is doubled and 9 is subtracted from a doubled
  value above 9.
\<close>

definition spec_digits :: "string \<Rightarrow> int list" where
  "spec_digits s = map (\<lambda>c. int (of_char c) - int (of_char (CHR ''0'')))
                       (filter (\<lambda>c. c \<in> set ''0123456789'') s)"

definition spec_luhn_term :: "nat \<Rightarrow> int \<Rightarrow> int" where
  "spec_luhn_term i d = (if odd i then (if 2 * d > 9 then 2 * d - 9 else 2 * d) else d)"

definition spec_luhn_sum :: "int list \<Rightarrow> int" where
  "spec_luhn_sum ds = (\<Sum>i < length ds. spec_luhn_term i (rev ds ! i))"

section \<open>Configuration\<close>



section \<open>Payment services\<close>

text \<open>
  Package \<^verbatim>\<open>service\<close>. Each \<^verbatim>\<open>perform...\<close> function is the body run inside the database
  transaction; the exported function around it begins the transaction, and commits when
  the body returns no error.
\<close>

definition validateAuthorizationRequest :: "string \<Rightarrow> string \<Rightarrow> int \<Rightarrow> go_error option" where
  "validateAuthorizationRequest cardNumber cvv amount =
     (case ValidateLuhn cardNumber of
        Some msg \<Rightarrow> Some (ServiceError ErrCodeInvalidCard msg)
      | None \<Rightarrow>
     (case ValidateCVV cvv of
        Some msg \<Rightarrow> Some (ServiceError ErrCodeInvalidCVV msg)
      | None \<Rightarrow>
     (case ValidateAmount amount of
        Some msg \<Rightarrow> Some (ServiceError ErrCodeInvalidAmount msg)
      | None \<Rightarrow> None)))"

definition performAuthorization ::
  "int \<Rightarrow> env \<Rightarrow> store \<Rightarrow> string \<Rightarrow> string \<Rightarrow> int \<Rightarrow> go_error + Transaction \<times> store" where
  "performAuthorization authExpiryHours e s cardNumber cvv amount =
     (case FindByAccountNumberForUpdate e s cardNumber of
        Inl err \<Rightarrow> Inl (ServiceError ErrCodeInvalidCard ''card not found or invalid'')
      | Inr account \<Rightarrow>
        if CVV account \<noteq> cvv then Inl (ServiceError ErrCodeInvalidCVV ''CVV does not match'')
        else
        (case ValidateExpiry (clockYear e) (clockMonth e)
                (ExpiryMonth account) (ExpiryYear account) of
           Some msg \<Rightarrow> Inl (ServiceError ErrCodeCardExpired msg)
         | None \<Rightarrow>
           if AvailableBalanceCents account < amount
           then Inl (ServiceError ErrCodeInsufficientFunds ''insufficient funds'')
           else
           (let authTx = \<lparr>ID = newUUID e, AccountID = AcctID account, Type = AUTH_HOLD,
                          AmountCents = amount, Currency = ''USD'', ReferenceID = None,
                          Status = ACTIVE, ExpiresAt = Some (now e + wrap64 (authExpiryHours * hour)),
                          CreatedAt = stamp e\<rparr> in
            case Create e s authTx of
              Inl err \<Rightarrow> Inl (ServiceError ErrCodeInternalError ''failed to create authorization'')
            | Inr s1 \<Rightarrow>
              (case AdjustBalances e s1 (AcctID account) 0 (neg64 amount) of
                 Inl err \<Rightarrow> Inl (ServiceError ErrCodeInternalError ''failed to adjust balance'')
               | Inr s2 \<Rightarrow> Inr (authTx, s2)))))"

text \<open>The wrapper shared by the four exported functions: begin, run the body, commit.\<close>

definition in_transaction ::
  "env \<Rightarrow> go_error + Transaction \<times> store \<Rightarrow> go_error + Transaction \<times> store" where
  "in_transaction e body =
     (if fails e CallBeginTx
      then Inl (ServiceError ErrCodeInternalError ''failed to start transaction'')
      else case body of
             Inl err \<Rightarrow> Inl err
           | Inr r \<Rightarrow>
             if fails e CallCommit
             then Inl (ServiceError ErrCodeInternalError ''failed to commit transaction'')
             else Inr r)"

definition Authorize ::
  "int \<Rightarrow> env \<Rightarrow> store \<Rightarrow> string \<Rightarrow> string \<Rightarrow> int \<Rightarrow> go_error + Transaction \<times> store" where
  "Authorize authExpiryHours e s cardNumber cvv amount =
     (case validateAuthorizationRequest cardNumber cvv amount of
        Some err \<Rightarrow> Inl err
      | None \<Rightarrow>
        in_transaction e (performAuthorization authExpiryHours e s cardNumber cvv amount))"

definition GetAuthorization :: "env \<Rightarrow> store \<Rightarrow> uuid \<Rightarrow> go_error + Transaction" where
  "GetAuthorization e s authID =
     (case FindByID e s authID of
        Inl err \<Rightarrow> Inl (ServiceError ErrCodeAuthNotFound ''authorization not found'')
      | Inr txn \<Rightarrow>
        if Type txn \<noteq> AUTH_HOLD
        then Inl (ServiceError ErrCodeAuthNotFound ''authorization not found'')
        else Inr txn)"

definition performCapture ::
  "env \<Rightarrow> store \<Rightarrow> uuid \<Rightarrow> int \<Rightarrow> go_error + Transaction \<times> store" where
  "performCapture e s authorizationID amount =
     (case FindByIDForUpdate e s authorizationID of
        Inl err \<Rightarrow> Inl (ServiceError ErrCodeAuthNotFound ''authorization not found'')
      | Inr authTxn \<Rightarrow>
        if Type authTxn \<noteq> AUTH_HOLD
        then Inl (ServiceError ErrCodeAuthNotFound ''authorization not found'')
        else if Status authTxn \<noteq> ACTIVE
        then Inl (ServiceError ErrCodeAuthAlreadyUsed
                    ''authorization has already been completed or cancelled'')
        else if (case ExpiresAt authTxn of None \<Rightarrow> False | Some expiresAt \<Rightarrow> now e > expiresAt)
        then Inl (ServiceError ErrCodeAuthExpired ''authorization has expired'')
        else if amount \<noteq> AmountCents authTxn
        then Inl (ServiceError ErrCodeAmountMismatch
                    ''capture amount does not match authorized amount'')
        else
        (let captureTxn = \<lparr>ID = newUUID e, AccountID = AccountID authTxn, Type = CAPTURE,
                            AmountCents = amount, Currency = Currency authTxn,
                            ReferenceID = Some authorizationID, Status = COMPLETED,
                            ExpiresAt = None, CreatedAt = stamp e\<rparr> in
         case Create e s captureTxn of
           Inl err \<Rightarrow>
             if err = ErrDuplicateTransaction
             then Inl (ServiceError ErrCodeAlreadyCaptured
                         ''authorization has already been captured'')
             else Inl (UntypedError ''failed to create capture'')
         | Inr s1 \<Rightarrow>
           (case UpdateStatus e s1 authorizationID COMPLETED of
              Inl err \<Rightarrow> Inl (ServiceError ErrCodeInternalError ''failed to update authorization'')
            | Inr s2 \<Rightarrow>
              (case AdjustBalances e s2 (AccountID authTxn) (neg64 amount) 0 of
                 Inl err \<Rightarrow> Inl (ServiceError ErrCodeInternalError ''failed to adjust balance'')
               | Inr s3 \<Rightarrow> Inr (captureTxn, s3)))))"

definition Capture :: "env \<Rightarrow> store \<Rightarrow> uuid \<Rightarrow> int \<Rightarrow> go_error + Transaction \<times> store" where
  "Capture e s authorizationID amount =
     in_transaction e (performCapture e s authorizationID amount)"

definition GetCapture :: "env \<Rightarrow> store \<Rightarrow> uuid \<Rightarrow> go_error + Transaction" where
  "GetCapture e s captureID =
     (case FindByID e s captureID of
        Inl err \<Rightarrow> Inl (ServiceError ErrCodeCaptureNotFound ''capture not found'')
      | Inr txn \<Rightarrow>
        if Type txn \<noteq> CAPTURE
        then Inl (ServiceError ErrCodeCaptureNotFound ''capture not found'')
        else Inr txn)"

definition performVoid :: "env \<Rightarrow> store \<Rightarrow> uuid \<Rightarrow> go_error + Transaction \<times> store" where
  "performVoid e s authorizationID =
     (case FindByIDForUpdate e s authorizationID of
        Inl err \<Rightarrow> Inl (ServiceError ErrCodeAuthNotFound ''authorization not found'')
      | Inr authTxn \<Rightarrow>
        if Type authTxn \<noteq> AUTH_HOLD
        then Inl (ServiceError ErrCodeAuthNotFound ''authorization not found'')
        else if Status authTxn \<noteq> ACTIVE
        then Inl (ServiceError ErrCodeAuthAlreadyUsed
                    ''authorization has already been completed or cancelled'')
        else
        (case FindByReferenceID e s authorizationID CAPTURE of
           Inl err \<Rightarrow> Inl (ServiceError ErrCodeInternalError ''failed to check existing capture'')
         | Inr (Some existingCapture) \<Rightarrow>
             Inl (ServiceError ErrCodeAlreadyCaptured
                    ''cannot void an authorization that has been captured'')
         | Inr None \<Rightarrow>
           (let voidTxn = \<lparr>ID = newUUID e, AccountID = AccountID authTxn, Type = VOID,
                           AmountCents = AmountCents authTxn, Currency = Currency authTxn,
                           ReferenceID = Some authorizationID, Status = COMPLETED,
                           ExpiresAt = None, CreatedAt = stamp e\<rparr> in
            case Create e s voidTxn of
              Inl err \<Rightarrow>
                if err = ErrDuplicateTransaction
                then Inl (ServiceError ErrCodeAlreadyVoided
                            ''authorization has already been voided'')
                else Inl (UntypedError ''failed to create void'')
            | Inr s1 \<Rightarrow>
              (case UpdateStatus e s1 authorizationID COMPLETED of
                 Inl err \<Rightarrow>
                   Inl (ServiceError ErrCodeInternalError ''failed to update authorization'')
               | Inr s2 \<Rightarrow>
                 (case AdjustBalances e s2 (AccountID authTxn) 0 (AmountCents authTxn) of
                    Inl err \<Rightarrow> Inl (ServiceError ErrCodeInternalError ''failed to adjust balance'')
                  | Inr s3 \<Rightarrow> Inr (voidTxn, s3))))))"

definition Void :: "env \<Rightarrow> store \<Rightarrow> uuid \<Rightarrow> go_error + Transaction \<times> store" where
  "Void e s authorizationID = in_transaction e (performVoid e s authorizationID)"

definition performRefund ::
  "env \<Rightarrow> store \<Rightarrow> uuid \<Rightarrow> int \<Rightarrow> go_error + Transaction \<times> store" where
  "performRefund e s captureID amount =
     (case FindByIDForUpdate e s captureID of
        Inl err \<Rightarrow> Inl (ServiceError ErrCodeCaptureNotFound ''capture not found'')
      | Inr captureTxn \<Rightarrow>
        if Type captureTxn \<noteq> CAPTURE
        then Inl (ServiceError ErrCodeCaptureNotFound ''capture not found'')
        else if Status captureTxn \<noteq> COMPLETED
        then Inl (ServiceError ErrCodeCaptureNotFound ''capture is not in completed status'')
        else if amount \<noteq> AmountCents captureTxn
        then Inl (ServiceError ErrCodeAmountMismatch ''refund amount must equal capture amount'')
        else
        (let refundTxn = \<lparr>ID = newUUID e, AccountID = AccountID captureTxn, Type = REFUND,
                           AmountCents = amount, Currency = Currency captureTxn,
                           ReferenceID = Some captureID, Status = COMPLETED,
                           ExpiresAt = None, CreatedAt = stamp e\<rparr> in
         case Create e s refundTxn of
           Inl err \<Rightarrow>
             if err = ErrDuplicateTransaction
             then Inl (ServiceError ErrCodeAlreadyRefunded ''capture has already been refunded'')
             else Inl (UntypedError ''failed to create refund'')
         | Inr s1 \<Rightarrow>
           (case AdjustBalances e s1 (AccountID captureTxn) amount amount of
              Inl err \<Rightarrow> Inl (ServiceError ErrCodeInternalError ''failed to adjust balance'')
            | Inr s2 \<Rightarrow> Inr (refundTxn, s2))))"

definition Refund :: "env \<Rightarrow> store \<Rightarrow> uuid \<Rightarrow> int \<Rightarrow> go_error + Transaction \<times> store" where
  "Refund e s captureID amount = in_transaction e (performRefund e s captureID amount)"

definition GetRefund :: "env \<Rightarrow> store \<Rightarrow> uuid \<Rightarrow> go_error + Transaction" where
  "GetRefund e s refundID =
     (case FindByID e s refundID of
        Inl err \<Rightarrow> Inl (ServiceError ''refund_not_found'' ''refund not found'')
      | Inr txn \<Rightarrow>
        if Type txn \<noteq> REFUND
        then Inl (ServiceError ''refund_not_found'' ''refund not found'')
        else Inr txn)"

subsection \<open>Sequences of requests\<close>

text \<open>
  A client request to one of the four mutating operations, and a run of such requests one
  after the other, each with what it reads from outside. A request that fails leaves the
  store as it was.
\<close>

datatype request =
  ReqAuthorize string string int | ReqCapture uuid int | ReqVoid uuid | ReqRefund uuid int

fun exec :: "int \<Rightarrow> env \<Rightarrow> store \<Rightarrow> request \<Rightarrow> go_error + Transaction \<times> store" where
  "exec h e s (ReqAuthorize cardNumber cvv amount) = Authorize h e s cardNumber cvv amount"
| "exec h e s (ReqCapture authorizationID amount) = Capture e s authorizationID amount"
| "exec h e s (ReqVoid authorizationID) = Void e s authorizationID"
| "exec h e s (ReqRefund captureID amount) = Refund e s captureID amount"

fun run :: "int \<Rightarrow> store \<Rightarrow> (env \<times> request) list \<Rightarrow> store" where
  "run h s [] = s"
| "run h s ((e, r) # rest) =
     (case exec h e s r of Inl err \<Rightarrow> run h s rest | Inr (txn, s') \<Rightarrow> run h s' rest)"

subsection \<open>Ledger sums\<close>

text \<open>
  The signed deltas of a ledger row on the posted and on the available balance, and their
  sums over the rows of one account; \<open>held\<close> is the total of the account's active holds.
\<close>

definition posted_delta :: "Transaction \<Rightarrow> int" where
  "posted_delta t =
     (case Type t of AUTH_HOLD \<Rightarrow> 0 | CAPTURE \<Rightarrow> - AmountCents t | VOID \<Rightarrow> 0
      | REFUND \<Rightarrow> AmountCents t)"

definition available_delta :: "Transaction \<Rightarrow> int" where
  "available_delta t =
     (case Type t of AUTH_HOLD \<Rightarrow> - AmountCents t | CAPTURE \<Rightarrow> 0 | VOID \<Rightarrow> AmountCents t
      | REFUND \<Rightarrow> AmountCents t)"

definition ledger_sum :: "(Transaction \<Rightarrow> int) \<Rightarrow> Transaction list \<Rightarrow> uuid \<Rightarrow> int" where
  "ledger_sum delta rows accountID =
     sum_list (map delta (filter (\<lambda>t. AccountID t = accountID) rows))"

definition is_active_hold :: "Transaction \<Rightarrow> bool" where
  "is_active_hold t = (Type t = AUTH_HOLD \<and> Status t = ACTIVE)"

definition held :: "Transaction list \<Rightarrow> uuid \<Rightarrow> int" where
  "held rows accountID =
     sum_list (map AmountCents
       (filter (\<lambda>t. is_active_hold t \<and> AccountID t = accountID) rows))"

definition holds_positive :: "Transaction list \<Rightarrow> bool" where
  "holds_positive rows = list_all (\<lambda>t. Type t = AUTH_HOLD \<longrightarrow> 0 < AmountCents t) rows"

definition available_le_balance :: "store \<Rightarrow> bool" where
  "available_le_balance s =
     list_all (\<lambda>a. AvailableBalanceCents a \<le> BalanceCents a) (accounts s)"

definition holds_covered :: "store \<Rightarrow> bool" where
  "holds_covered s =
     list_all (\<lambda>a. AvailableBalanceCents a + held (transactions s) (AcctID a) \<le> BalanceCents a)
       (accounts s)"

definition ledger_matches :: "store \<Rightarrow> store \<Rightarrow> bool" where
  "ledger_matches s0 s =
     list_all2
       (\<lambda>a0 a. AcctID a = AcctID a0 \<and>
          ledger_sum posted_delta (transactions s) (AcctID a0)
            = BalanceCents a - BalanceCents a0 \<and>
          ledger_sum available_delta (transactions s) (AcctID a0)
            = AvailableBalanceCents a - AvailableBalanceCents a0)
       (accounts s0) (accounts s)"

subsection \<open>The seeded store\<close>

text \<open>
  The four accounts the migration inserts, with no ledger row; the row ids, which the
  database draws at random, are 1 to 4 here. The clock of the examples is October 2026.
\<close>

definition seed_store :: store where
  "seed_store =
     \<lparr>accounts =
        [\<lparr>AcctID = 1, AccountNumber = ''4111111111111111'', CVV = ''123'', ExpiryMonth = 12,
          ExpiryYear = 2030, BalanceCents = 1000000, AvailableBalanceCents = 1000000\<rparr>,
         \<lparr>AcctID = 2, AccountNumber = ''4242424242424242'', CVV = ''456'', ExpiryMonth = 6,
          ExpiryYear = 2030, BalanceCents = 50000, AvailableBalanceCents = 50000\<rparr>,
         \<lparr>AcctID = 3, AccountNumber = ''5555555555554444'', CVV = ''789'', ExpiryMonth = 9,
          ExpiryYear = 2030, BalanceCents = 0, AvailableBalanceCents = 0\<rparr>,
         \<lparr>AcctID = 4, AccountNumber = ''5105105105105100'', CVV = ''321'', ExpiryMonth = 3,
          ExpiryYear = 2020, BalanceCents = 500000, AvailableBalanceCents = 500000\<rparr>],
      transactions = []\<rparr>"

definition env_at :: "time \<Rightarrow> uuid \<Rightarrow> db_call list \<Rightarrow> env" where
  "env_at t u fs =
     \<lparr>clockYear = 2026, clockMonth = 10, now = t, stamp = t, newUUID = u, failing = fs\<rparr>"

definition hold_row :: Transaction where
  "hold_row =
     \<lparr>ID = 10, AccountID = 1, Type = AUTH_HOLD, AmountCents = 10000, Currency = ''USD'',
      ReferenceID = None, Status = ACTIVE, ExpiresAt = Some 604800000001000,
      CreatedAt = 1000\<rparr>"

definition store_with_hold :: store where
  "store_with_hold =
     \<lparr>accounts =
        [\<lparr>AcctID = 1, AccountNumber = ''4111111111111111'', CVV = ''123'', ExpiryMonth = 12,
          ExpiryYear = 2030, BalanceCents = 1000000, AvailableBalanceCents = 990000\<rparr>,
         \<lparr>AcctID = 2, AccountNumber = ''4242424242424242'', CVV = ''456'', ExpiryMonth = 6,
          ExpiryYear = 2030, BalanceCents = 50000, AvailableBalanceCents = 50000\<rparr>,
         \<lparr>AcctID = 3, AccountNumber = ''5555555555554444'', CVV = ''789'', ExpiryMonth = 9,
          ExpiryYear = 2030, BalanceCents = 0, AvailableBalanceCents = 0\<rparr>,
         \<lparr>AcctID = 4, AccountNumber = ''5105105105105100'', CVV = ''321'', ExpiryMonth = 3,
          ExpiryYear = 2020, BalanceCents = 500000, AvailableBalanceCents = 500000\<rparr>],
      transactions = [hold_row]\<rparr>"

definition example_run :: "(env \<times> request) list" where
  "example_run =
     [(env_at 1000 10 [], ReqAuthorize ''4111111111111111'' ''123'' 10000),
      (env_at 2000 11 [], ReqCapture 10 10000),
      (env_at 3000 12 [], ReqAuthorize ''4111111111111111'' ''123'' 2500),
      (env_at 4000 13 [], ReqVoid 12),
      (env_at 5000 14 [], ReqAuthorize ''4111111111111111'' ''123'' 700)]"

subsection \<open>The outcome of a capture, as the specification words it\<close>

text \<open>
  For comparison with \<open>Capture\<close>: the checks of a capture in the order the
  specification lists them, read on the rows of the store. \<open>claimed_capture_outcome\<close>
  ends with "Capture succeeds otherwise"; \<open>amended_capture_outcome\<close> also says what
  happens when a database call fails, from the begin of the transaction to its commit.
\<close>

datatype outcome = Accepted | Rejected string | Failed

fun outcome_of :: "go_error + 'a \<Rightarrow> outcome" where
  "outcome_of (Inr x) = Accepted"
| "outcome_of (Inl (ServiceError c m)) = Rejected c"
| "outcome_of (Inl (UntypedError m)) = Failed"

definition in_the_past :: "env \<Rightarrow> time option \<Rightarrow> bool" where
  "in_the_past e expiresAt = (case expiresAt of None \<Rightarrow> False | Some x \<Rightarrow> x < now e)"

definition has_capture :: "store \<Rightarrow> uuid \<Rightarrow> bool" where
  "has_capture s authID =
     list_ex (\<lambda>t. ReferenceID t = Some authID \<and> Type t = CAPTURE) (transactions s)"

definition claimed_capture_outcome :: "env \<Rightarrow> store \<Rightarrow> uuid \<Rightarrow> int \<Rightarrow> outcome" where
  "claimed_capture_outcome e s authID amount =
     (case find (\<lambda>t. ID t = authID) (transactions s) of
        None \<Rightarrow> Rejected ''authorization_not_found''
      | Some a \<Rightarrow>
        if Type a \<noteq> AUTH_HOLD then Rejected ''authorization_not_found''
        else if Status a \<noteq> ACTIVE then Rejected ''authorization_already_used''
        else if in_the_past e (ExpiresAt a) then Rejected ''authorization_expired''
        else if amount \<noteq> AmountCents a then Rejected ''amount_mismatch''
        else if has_capture s authID then Rejected ''already_captured''
        else Accepted)"

definition amended_capture_outcome :: "env \<Rightarrow> store \<Rightarrow> uuid \<Rightarrow> int \<Rightarrow> outcome" where
  "amended_capture_outcome e s authID amount =
     (if fails e CallBeginTx then Rejected ''internal_error''
      else if fails e CallFindTransaction then Rejected ''authorization_not_found''
      else
      (case find (\<lambda>t. ID t = authID) (transactions s) of
        None \<Rightarrow> Rejected ''authorization_not_found''
      | Some a \<Rightarrow>
        if Type a \<noteq> AUTH_HOLD then Rejected ''authorization_not_found''
        else if Status a \<noteq> ACTIVE then Rejected ''authorization_already_used''
        else if in_the_past e (ExpiresAt a) then Rejected ''authorization_expired''
        else if amount \<noteq> AmountCents a then Rejected ''amount_mismatch''
        else if fails e CallCreate then Failed
        else if has_capture s authID then Rejected ''already_captured''
        else if list_ex (\<lambda>t. ID t = newUUID e) (transactions s) \<or>
                \<not> list_ex (\<lambda>acc. AcctID acc = AccountID a) (accounts s) then Failed
        else if fails e CallUpdateStatus then Rejected ''internal_error''
        else if fails e CallAdjustBalances \<or> out_of_range s (AccountID a) (neg64 amount) 0
          then Rejected ''internal_error''
        else if fails e CallCommit then Rejected ''internal_error''
        else Accepted))"

section \<open>HTTP layer\<close>

text \<open>
  Package \<^verbatim>\<open>handlers\<close>. A handler returns one of the generated response objects, whose
  type names carry the HTTP status (\<^verbatim>\<open>CreateCapture200JSONResponse\<close>,
  \<^verbatim>\<open>CreateCapture400JSONResponse\<close>, ...); an error response holds an error code and a message.
  Modelled from the spec: the error codes of the generated package \<^verbatim>\<open>api\<close>
  (\<^verbatim>\<open>api.ErrorCodeInvalidCard\<close>, ...) are missing from the sources; they are the codes of
  the error taxonomy, as they appear in bodies. \<^verbatim>\<open>uuid.Parse\<close> is a parameter.
\<close>

datatype api_response =
    JSON200 Transaction
  | JSON400 string string
  | JSON402 string string
  | JSON404 string string
  | JSON500 string string

fun http_status :: "api_response \<Rightarrow> nat" where
  "http_status (JSON200 txn) = 200"
| "http_status (JSON400 c m) = 400"
| "http_status (JSON402 c m) = 402"
| "http_status (JSON404 c m) = 404"
| "http_status (JSON500 c m) = 500"

fun body_error :: "api_response \<Rightarrow> string option" where
  "body_error (JSON200 txn) = None"
| "body_error (JSON400 c m) = Some c"
| "body_error (JSON402 c m) = Some c"
| "body_error (JSON404 c m) = Some c"
| "body_error (JSON500 c m) = Some c"

definition parseIDWithPrefix :: "(string \<Rightarrow> uuid option) \<Rightarrow> string \<Rightarrow> string \<Rightarrow> uuid option" where
  "parseIDWithPrefix uuidParse ident pfx =
     (if take (length pfx) ident \<noteq> pfx then None
      else uuidParse (drop (length pfx) ident))"

definition parseAuthorizationID :: "(string \<Rightarrow> uuid option) \<Rightarrow> string \<Rightarrow> uuid option" where
  "parseAuthorizationID uuidParse ident = parseIDWithPrefix uuidParse ident ''auth_''"

definition parseCaptureID :: "(string \<Rightarrow> uuid option) \<Rightarrow> string \<Rightarrow> uuid option" where
  "parseCaptureID uuidParse ident = parseIDWithPrefix uuidParse ident ''cap_''"

definition mapServiceErrorToCode :: "string \<Rightarrow> string" where
  "mapServiceErrorToCode code =
     (if code = ErrCodeInvalidCard then ''invalid_card''
      else if code = ErrCodeInvalidCVV then ''invalid_cvv''
      else if code = ErrCodeInvalidAmount then ''invalid_amount''
      else if code = ErrCodeCardExpired then ''card_expired''
      else if code = ErrCodeInsufficientFunds then ''insufficient_funds''
      else if code = ErrCodeAuthNotFound then ''authorization_not_found''
      else if code = ErrCodeAuthExpired then ''authorization_expired''
      else if code = ErrCodeAuthAlreadyUsed then ''authorization_already_used''
      else if code = ErrCodeAlreadyCaptured then ''already_captured''
      else if code = ErrCodeAlreadyVoided then ''already_voided''
      else if code = ErrCodeAlreadyRefunded then ''already_refunded''
      else if code = ErrCodeAmountMismatch then ''amount_mismatch''
      else if code = ErrCodeCaptureNotFound then ''capture_not_found''
      else ''internal_error'')"

definition isPaymentRequiredError :: "string \<Rightarrow> bool" where
  "isPaymentRequiredError code = (code = ErrCodeInsufficientFunds)"

fun extractServiceError :: "go_error \<Rightarrow> (string \<times> string) option" where
  "extractServiceError (ServiceError code msg) = Some (code, msg)"
| "extractServiceError (UntypedError msg) = None"

definition handleAuthorizationError :: "go_error \<Rightarrow> api_response" where
  "handleAuthorizationError err =
     (case extractServiceError err of
        None \<Rightarrow> JSON500 ''internal_error'' ''internal error''
      | Some (code, msg) \<Rightarrow>
        (let errorCode = mapServiceErrorToCode code in
         if isPaymentRequiredError code then JSON402 errorCode msg
         else JSON400 errorCode msg))"

definition handleCaptureError :: "go_error \<Rightarrow> api_response" where
  "handleCaptureError err =
     (case extractServiceError err of
        None \<Rightarrow> JSON500 ''internal_error'' ''internal error''
      | Some (code, msg) \<Rightarrow> JSON400 (mapServiceErrorToCode code) msg)"

definition handleVoidError :: "go_error \<Rightarrow> api_response" where
  "handleVoidError err =
     (case extractServiceError err of
        None \<Rightarrow> JSON500 ''internal_error'' ''internal error''
      | Some (code, msg) \<Rightarrow> JSON400 (mapServiceErrorToCode code) msg)"

definition handleRefundError :: "go_error \<Rightarrow> api_response" where
  "handleRefundError err =
     (case extractServiceError err of
        None \<Rightarrow> JSON500 ''internal_error'' ''internal error''
      | Some (code, msg) \<Rightarrow> JSON400 (mapServiceErrorToCode code) msg)"

definition CreateAuthorization ::
  "int \<Rightarrow> env \<Rightarrow> store \<Rightarrow> string \<Rightarrow> string \<Rightarrow> int \<Rightarrow> api_response \<times> store" where
  "CreateAuthorization h e s cardNumber cvv amount =
     (case Authorize h e s cardNumber cvv amount of
        Inl err \<Rightarrow> (handleAuthorizationError err, s)
      | Inr (txn, s') \<Rightarrow> (JSON200 txn, s'))"

definition CreateCapture ::
  "(string \<Rightarrow> uuid option) \<Rightarrow> env \<Rightarrow> store \<Rightarrow> string \<Rightarrow> int \<Rightarrow> api_response \<times> store" where
  "CreateCapture uuidParse e s authorizationId amount =
     (case parseAuthorizationID uuidParse authorizationId of
        None \<Rightarrow> (JSON400 ''authorization_not_found'' ''invalid authorization ID format'', s)
      | Some authID \<Rightarrow>
        (case Capture e s authID amount of
           Inl err \<Rightarrow> (handleCaptureError err, s)
         | Inr (txn, s') \<Rightarrow> (JSON200 txn, s')))"

definition CreateVoid ::
  "(string \<Rightarrow> uuid option) \<Rightarrow> env \<Rightarrow> store \<Rightarrow> string \<Rightarrow> api_response \<times> store" where
  "CreateVoid uuidParse e s authorizationId =
     (case parseAuthorizationID uuidParse authorizationId of
        None \<Rightarrow> (JSON400 ''authorization_not_found'' ''invalid authorization ID format'', s)
      | Some authID \<Rightarrow>
        (case Void e s authID of
           Inl err \<Rightarrow> (handleVoidError err, s)
         | Inr (txn, s') \<Rightarrow> (JSON200 txn, s')))"

definition CreateRefund ::
  "(string \<Rightarrow> uuid option) \<Rightarrow> env \<Rightarrow> store \<Rightarrow> string \<Rightarrow> int \<Rightarrow> api_response \<times> store" where
  "CreateRefund uuidParse e s captureId amount =
     (case parseCaptureID uuidParse captureId of
        None \<Rightarrow> (JSON400 ''capture_not_found'' ''invalid capture ID format'', s)
      | Some captureID \<Rightarrow>
        (case Refund e s captureID amount of
           Inl err \<Rightarrow> (handleRefundError err, s)
         | Inr (txn, s') \<Rightarrow> (JSON200 txn, s')))"

section \<open>Idempotency middleware\<close>

text \<open>
  Package \<^verbatim>\<open>middleware\<close>. A handler is known by the calls it makes on its
  \<^verbatim>\<open>http.ResponseWriter\<close>; \<^verbatim>\<open>responseCapture\<close> forwards each call and records the status
  and the body. The outcome of the middleware is what reached the client's writer,
  whether the next handler ran, the call made to \<^verbatim>\<open>repo.Store\<close> if any, the table after
  it, and what was logged as an error.
  Modelled from the spec: the idempotency repository is missing from the sources; \<open>IdemGet\<close>
  returns the record of (key, path) or none, \<open>IdemStore\<close> inserts and keeps the first
  record on a conflict.
\<close>

record http_request =
  Method :: string
  URLPath :: string
  HeaderIdempotencyKey :: string

datatype writer_call = SetHeader string string | WriteHeader int | Write string

record responseCapture =
  forwarded :: "writer_call list"
  body :: string
  statusCode :: int

record idem_outcome =
  response :: "writer_call list"
  handlerInvoked :: bool
  storeCall :: "IdempotencyKey option"
  keysAfter :: "IdempotencyKey list"
  errorLog :: "string list"

definition idempotentPaths :: "string list" where
  "idempotentPaths =
     [''/api/v1/authorizations'', ''/api/v1/captures'', ''/api/v1/voids'', ''/api/v1/refunds'']"

definition IdemGet ::
  "env \<Rightarrow> IdempotencyKey list \<Rightarrow> string \<Rightarrow> string \<Rightarrow> repo_error + IdempotencyKey option" where
  "IdemGet e keys k requestPath =
     (if fails e CallIdemGet then Inl ErrDB
      else Inr (find (\<lambda>r. Key r = k \<and> RequestPath r = requestPath) keys))"

definition IdemStore ::
  "env \<Rightarrow> IdempotencyKey list \<Rightarrow> IdempotencyKey \<Rightarrow> repo_error + IdempotencyKey list" where
  "IdemStore e keys idemKey =
     (if fails e CallIdemStore then Inl ErrDB
      else if list_ex (\<lambda>r. Key r = Key idemKey \<and> RequestPath r = RequestPath idemKey) keys
        then Inr keys
      else Inr (keys @ [idemKey]))"

definition newResponseCapture :: responseCapture where
  "newResponseCapture = \<lparr>forwarded = [], body = [], statusCode = 200\<rparr>"

fun rc_call :: "responseCapture \<Rightarrow> writer_call \<Rightarrow> responseCapture" where
  "rc_call rc (WriteHeader code) =
     rc\<lparr>forwarded := forwarded rc @ [WriteHeader code], statusCode := code\<rparr>"
| "rc_call rc (Write b) = rc\<lparr>forwarded := forwarded rc @ [Write b], body := body rc @ b\<rparr>"
| "rc_call rc (SetHeader k v) = rc\<lparr>forwarded := forwarded rc @ [SetHeader k v]\<rparr>"

definition requiresIdempotency :: "http_request \<Rightarrow> bool" where
  "requiresIdempotency r =
     (if Method r \<noteq> ''POST'' then False else list_ex (\<lambda>p. URLPath r = p) idempotentPaths)"

definition normalizeRequestPath :: "string \<Rightarrow> string" where
  "normalizeRequestPath urlPath =
     (if urlPath \<noteq> [] \<and> last urlPath = CHR ''/'' then butlast urlPath else urlPath)"

definition shouldCacheResponse :: "int \<Rightarrow> bool" where
  "shouldCacheResponse code = (code \<ge> 200 \<and> code < 300)"

definition pass_through :: "IdempotencyKey list \<Rightarrow> writer_call list \<Rightarrow> string list \<Rightarrow> idem_outcome" where
  "pass_through keys calls logged =
     \<lparr>response = calls, handlerInvoked = True, storeCall = None, keysAfter = keys,
      errorLog = logged\<rparr>"

definition Idempotency ::
  "env \<Rightarrow> IdempotencyKey list \<Rightarrow> (http_request \<Rightarrow> writer_call list) \<Rightarrow> http_request
     \<Rightarrow> idem_outcome" where
  "Idempotency e keys next r =
     (if \<not> requiresIdempotency r then pass_through keys (next r) []
      else
      (let idempotencyKey = HeaderIdempotencyKey r in
       if idempotencyKey = [] then pass_through keys (next r) []
       else
       (let requestPath = normalizeRequestPath (URLPath r) in
        case IdemGet e keys idempotencyKey requestPath of
          Inl err \<Rightarrow> pass_through keys (next r) [''failed to check idempotency cache'']
        | Inr (Some cached) \<Rightarrow>
            \<lparr>response = [SetHeader ''Content-Type'' ''application/json'',
                         SetHeader ''X-Idempotent-Replayed'' ''true'',
                         WriteHeader (ResponseStatus cached),
                         Write (ResponseBody cached)],
             handlerInvoked = False, storeCall = None, keysAfter = keys, errorLog = []\<rparr>
        | Inr None \<Rightarrow>
          (let capture = foldl rc_call newResponseCapture (next r) in
           if shouldCacheResponse (statusCode capture)
           then
             (let idemKey = \<lparr>Key = idempotencyKey, RequestPath = requestPath,
                             ResponseBody = body capture,
                             ResponseStatus = statusCode capture, StoredAt = now e\<rparr> in
              case IdemStore e keys idemKey of
                Inl err \<Rightarrow>
                  \<lparr>response = forwarded capture, handlerInvoked = True,
                   storeCall = Some idemKey, keysAfter = keys,
                   errorLog = [''failed to store idempotency key'']\<rparr>
              | Inr keys' \<Rightarrow>
                  \<lparr>response = forwarded capture, handlerInvoked = True,
                   storeCall = Some idemKey, keysAfter = keys', errorLog = []\<rparr>)
           else pass_through keys (forwarded capture) []))))"

subsection \<open>What a handler wrote\<close>

text \<open>
  The status and the body of the calls a handler made, read off the list of calls: the
  status of the last \<^verbatim>\<open>WriteHeader\<close> (200 when there is none) and the written bytes in
  order.
\<close>

fun written_status :: "int \<Rightarrow> writer_call list \<Rightarrow> int" where
  "written_status st [] = st"
| "written_status st (WriteHeader code # cs) = written_status code cs"
| "written_status st (c # cs) = written_status st cs"

fun written_body :: "writer_call list \<Rightarrow> string" where
  "written_body [] = []"
| "written_body (Write b # cs) = b @ written_body cs"
| "written_body (c # cs) = written_body cs"

subsection \<open>An example exchange\<close>

text \<open>
  A capture request carrying the key \<^verbatim>\<open>K\<close>, a handler that answers 200, and the record
  the middleware keeps of that answer.
\<close>

definition capture_request :: http_request where
  "capture_request =
     \<lparr>Method = ''POST'', URLPath = ''/api/v1/captures'', HeaderIdempotencyKey = ''K''\<rparr>"

definition ok_handler :: "http_request \<Rightarrow> writer_call list" where
  "ok_handler r =
     [SetHeader ''Content-Type'' ''application/json'', WriteHeader 200, Write ''captured'']"

definition cached_capture :: IdempotencyKey where
  "cached_capture =
     \<lparr>Key = ''K'', RequestPath = ''/api/v1/captures'', ResponseBody = ''captured'',
      ResponseStatus = 200, StoredAt = 3000\<rparr>"

section \<open>Validator proofs\<close>

lemma nat_digit_range:
  "(48 \<le> n \<and> n \<le> 57) \<longleftrightarrow> n \<in> {48, 49, 50, 51, 52, 53, 54, 55, 56, 57::nat}"
  by (simp; arith)

lemma char_of_digits:
  "char_of (48::nat) = CHR ''0''" "char_of (49::nat) = CHR ''1''" "char_of (50::nat) = CHR ''2''"
  "char_of (51::nat) = CHR ''3''" "char_of (52::nat) = CHR ''4''" "char_of (53::nat) = CHR ''5''"
  "char_of (54::nat) = CHR ''6''" "char_of (55::nat) = CHR ''7''" "char_of (56::nat) = CHR ''8''"
  "char_of (57::nat) = CHR ''9''"
  by code_simp+

lemma of_char_eq_nat: "(of_char c :: nat) = n \<longleftrightarrow> n < 256 \<and> c = char_of n"
  by auto

lemma is_digit_iff: "is_digit c \<longleftrightarrow> c \<in> set ''0123456789''"
  unfolding is_digit_def nat_digit_range
  by (simp add: of_char_eq_nat char_of_digits)

lemma luhn_digits_spec: "luhn_digits s = spec_digits s"
  by (induction s) (simp_all add: spec_digits_def is_digit_iff)

lemma luhn_loop_sum:
  "luhn_loop xs b acc =
     acc + (\<Sum>i < length xs. spec_luhn_term (if b then Suc i else i) (xs ! i))"
proof (induction xs arbitrary: b acc)
  case Nil
  then show ?case by simp
next
  case (Cons d ds)
  have step: "(\<Sum>i < Suc (length ds). spec_luhn_term (if b then Suc i else i) ((d # ds) ! i))
      = spec_luhn_term (if b then Suc 0 else 0) d
        + (\<Sum>i < length ds. spec_luhn_term (if b then Suc (Suc i) else Suc i) (ds ! i))"
    by (subst sum.lessThan_Suc_shift) simp
  have flip: "spec_luhn_term (if \<not> b then Suc i else i) x
      = spec_luhn_term (if b then Suc (Suc i) else Suc i) x" for i x
    by (simp add: spec_luhn_term_def)
  show ?case
    using Cons.IH [of "\<not> b"] step
    by (simp add: Let_def flip) (simp add: spec_luhn_term_def mult.commute)
qed

lemma luhn_loop_spec: "luhn_loop (rev ds) False 0 = spec_luhn_sum ds"
  by (simp add: luhn_loop_sum spec_luhn_sum_def)

text \<open>
  Claim C9. \<^verbatim>\<open>ValidateLuhn\<close> works on the decimal digits of its input, and returns no
  error exactly when there are between 13 and 19 of them and the Luhn sum (every second
  digit from the right doubled, less 9 when the doubled value exceeds 9) is divisible by
  10. Inputs of fewer than 13 or more than 19 digits are rejected whatever the checksum.
\<close>

theorem ValidateLuhn_spec:
  "luhn_digits s = spec_digits s \<and>
   (ValidateLuhn s = None \<longleftrightarrow>
      13 \<le> length (spec_digits s) \<and> length (spec_digits s) \<le> 19 \<and>
      spec_luhn_sum (spec_digits s) mod 10 = 0) \<and>
   ((length (spec_digits s) < 13 \<or> 19 < length (spec_digits s)) \<longleftrightarrow>
      ValidateLuhn s = Some ''invalid card number length: must be 13-19 digits'')"
  by (auto simp: ValidateLuhn_def Let_def luhn_digits_spec luhn_loop_spec)

section \<open>What a successful call did\<close>

lemma FindByID_Inr:
  "FindByID e s i = Inr t \<Longrightarrow> find (\<lambda>t. ID t = i) (transactions s) = Some t"
  by (auto simp: FindByID_def split: if_splits option.splits)

lemma Create_Inr:
  "Create e s txn = Inr s' \<Longrightarrow>
     s' = s\<lparr>transactions := transactions s @ [txn]\<rparr> \<and>
     \<not> list_ex (\<lambda>t. ID t = ID txn) (transactions s)"
  by (auto simp: Create_def split: if_splits)

lemma UpdateStatus_Inr:
  "UpdateStatus e s i st = Inr s' \<Longrightarrow>
     s' = s\<lparr>transactions := map (set_status i st) (transactions s)\<rparr>"
  by (auto simp: UpdateStatus_def split: if_splits)

lemma AdjustBalances_Inr:
  "AdjustBalances e s aid bd ad = Inr s' \<Longrightarrow>
     s' = s\<lparr>accounts := map (adjust_row aid bd ad) (accounts s)\<rparr>"
  by (auto simp: AdjustBalances_def Let_def split: if_splits)

lemma in_transaction_Inr:
  "in_transaction e b = Inr r \<Longrightarrow> b = Inr r"
  by (auto simp: in_transaction_def split: if_splits sum.splits)

lemma performCapture_Inr:
  assumes "performCapture e s authID amount = Inr (t, s')"
  shows "\<exists>a. find (\<lambda>t. ID t = authID) (transactions s) = Some a \<and>
           Type a = AUTH_HOLD \<and> Status a = ACTIVE \<and> amount = AmountCents a \<and>
           t = \<lparr>ID = newUUID e, AccountID = AccountID a, Type = CAPTURE,
                 AmountCents = amount, Currency = Currency a,
                 ReferenceID = Some authID, Status = COMPLETED,
                 ExpiresAt = None, CreatedAt = stamp e\<rparr> \<and>
           \<not> list_ex (\<lambda>t. ID t = newUUID e) (transactions s) \<and>
           s' = \<lparr>accounts = map (adjust_row (AccountID a) (neg64 amount) 0) (accounts s),
                 transactions = map (set_status authID COMPLETED) (transactions s @ [t])\<rparr>"
  using assms
  unfolding performCapture_def FindByIDForUpdate_def
  by (auto simp: Let_def split: sum.splits if_splits
      dest!: FindByID_Inr Create_Inr UpdateStatus_Inr AdjustBalances_Inr)


lemma FindByAccountNumber_Inr:
  "FindByAccountNumberForUpdate e s c = Inr acc \<Longrightarrow>
     find (\<lambda>a. AccountNumber a = c) (accounts s) = Some acc"
  by (auto simp: FindByAccountNumberForUpdate_def FindByAccountNumber_def
      split: if_splits option.splits)

lemma performAuthorization_Inr:
  assumes "performAuthorization h e s c v amount = Inr (t, s')"
  shows "\<exists>acc. find (\<lambda>a. AccountNumber a = c) (accounts s) = Some acc \<and>
           CVV acc = v \<and> amount \<le> AvailableBalanceCents acc \<and>
           t = \<lparr>ID = newUUID e, AccountID = AcctID acc, Type = AUTH_HOLD,
                 AmountCents = amount, Currency = ''USD'', ReferenceID = None,
                 Status = ACTIVE, ExpiresAt = Some (now e + wrap64 (h * hour)),
                 CreatedAt = stamp e\<rparr> \<and>
           \<not> list_ex (\<lambda>t. ID t = newUUID e) (transactions s) \<and>
           s' = \<lparr>accounts = map (adjust_row (AcctID acc) 0 (neg64 amount)) (accounts s),
                 transactions = transactions s @ [t]\<rparr>"
  using assms
  unfolding performAuthorization_def
  by (auto simp: Let_def split: sum.splits if_splits option.splits
      dest!: FindByAccountNumber_Inr Create_Inr AdjustBalances_Inr)

lemma performVoid_Inr:
  assumes "performVoid e s authID = Inr (t, s')"
  shows "\<exists>a. find (\<lambda>t. ID t = authID) (transactions s) = Some a \<and>
           Type a = AUTH_HOLD \<and> Status a = ACTIVE \<and>
           t = \<lparr>ID = newUUID e, AccountID = AccountID a, Type = VOID,
                 AmountCents = AmountCents a, Currency = Currency a,
                 ReferenceID = Some authID, Status = COMPLETED,
                 ExpiresAt = None, CreatedAt = stamp e\<rparr> \<and>
           \<not> list_ex (\<lambda>t. ID t = newUUID e) (transactions s) \<and>
           s' = \<lparr>accounts = map (adjust_row (AccountID a) 0 (AmountCents a)) (accounts s),
                 transactions = map (set_status authID COMPLETED) (transactions s @ [t])\<rparr>"
  using assms
  unfolding performVoid_def FindByIDForUpdate_def
  by (auto simp: Let_def split: sum.splits if_splits option.splits
      dest!: FindByID_Inr Create_Inr UpdateStatus_Inr AdjustBalances_Inr)

lemma performRefund_Inr:
  assumes "performRefund e s captureID amount = Inr (t, s')"
  shows "\<exists>a. find (\<lambda>t. ID t = captureID) (transactions s) = Some a \<and>
           Type a = CAPTURE \<and> Status a = COMPLETED \<and> amount = AmountCents a \<and>
           t = \<lparr>ID = newUUID e, AccountID = AccountID a, Type = REFUND,
                 AmountCents = amount, Currency = Currency a,
                 ReferenceID = Some captureID, Status = COMPLETED,
                 ExpiresAt = None, CreatedAt = stamp e\<rparr> \<and>
           \<not> list_ex (\<lambda>t. ID t = newUUID e) (transactions s) \<and>
           s' = \<lparr>accounts = map (adjust_row (AccountID a) amount amount) (accounts s),
                 transactions = transactions s @ [t]\<rparr>"
  using assms
  unfolding performRefund_def FindByIDForUpdate_def
  by (auto simp: Let_def split: sum.splits if_splits option.splits
      dest!: FindByID_Inr Create_Inr AdjustBalances_Inr)

lemma Authorize_Inr:
  "Authorize h e s c v amount = Inr r \<Longrightarrow>
     0 < amount \<and> performAuthorization h e s c v amount = Inr r"
  by (auto simp: Authorize_def validateAuthorizationRequest_def ValidateAmount_def
      split: option.splits if_splits dest: in_transaction_Inr)

lemma neg64_pos: "0 < x \<Longrightarrow> neg64 x = - x"
  by (simp add: neg64_def)

lemma find_append_fresh:
  "\<not> list_ex P xs \<Longrightarrow> find P (xs @ [t]) = (if P t then Some t else None)"
  by (induction xs) auto

lemma find_Some_list_ex: "find P xs = Some x \<Longrightarrow> list_ex P xs \<and> P x \<and> x \<in> set xs"
  by (induction xs) (auto split: if_splits)

lemma find_set_status:
  "find (\<lambda>t. ID t = i) (map (set_status j st) xs)
     = map_option (set_status j st) (find (\<lambda>t. ID t = i) xs)"
  by (induction xs) (auto simp: set_status_def)

lemma adjust_row_twice:
  "adjust_row aid b1 a1 (adjust_row aid b2 a2 x) = adjust_row aid (b1 + b2) (a1 + a2) x"
  by (simp add: adjust_row_def)

lemma adjust_row_zero: "adjust_row aid 0 0 x = x"
  by (simp add: adjust_row_def)

lemma adjust_row_comp:
  "adjust_row aid b1 a1 \<circ> adjust_row aid b2 a2 = adjust_row aid (b1 + b2) (a1 + a2)"
  by (rule ext) (simp add: adjust_row_twice)

lemma adjust_row_id: "adjust_row aid 0 0 = id"
  by (rule ext) (simp add: adjust_row_zero)

lemma authorize_void:
  assumes A: "Authorize h e1 s c v m = Inr (t1, s1)"
    and V: "Void e2 s1 (ID t1) = Inr (t2, s2)"
  shows "accounts s2 = accounts s"
proof -
  from A have m: "0 < m" and pa: "performAuthorization h e1 s c v m = Inr (t1, s1)"
    by (auto dest: Authorize_Inr)
  from performAuthorization_Inr [OF pa] obtain acc :: Account where
    t1: "t1 = \<lparr>ID = newUUID e1, AccountID = AcctID acc, Type = AUTH_HOLD,
                 AmountCents = m, Currency = ''USD'', ReferenceID = None,
                 Status = ACTIVE, ExpiresAt = Some (now e1 + wrap64 (h * hour)),
                 CreatedAt = stamp e1\<rparr>"
    and fresh: "\<not> list_ex (\<lambda>t. ID t = newUUID e1) (transactions s)"
    and s1: "s1 = \<lparr>accounts = map (adjust_row (AcctID acc) 0 (neg64 m)) (accounts s),
                 transactions = transactions s @ [t1]\<rparr>"
    by blast
  from V have pv: "performVoid e2 s1 (ID t1) = Inr (t2, s2)"
    by (auto simp: Void_def dest: in_transaction_Inr)
  from performVoid_Inr [OF pv] obtain a :: Transaction where
    a: "find (\<lambda>t. ID t = ID t1) (transactions s1) = Some a"
    and s2: "accounts s2 = map (adjust_row (AccountID a) 0 (AmountCents a)) (accounts s1)"
    by auto
  from a fresh have "a = t1"
    by (simp add: s1 t1 find_append_fresh)
  then show ?thesis
    using m by (simp add: s2 s1 t1 adjust_row_comp neg64_pos adjust_row_id)
qed


lemma authorize_capture_refund:
  assumes A: "Authorize h e1 s c v m = Inr (t1, s1)"
    and C: "Capture e2 s1 (ID t1) m2 = Inr (t2, s2)"
    and R: "Refund e3 s2 (ID t2) m3 = Inr (t3, s3)"
  shows "accounts s3 = accounts s"
proof -
  from A have m: "0 < m" and pa: "performAuthorization h e1 s c v m = Inr (t1, s1)"
    by (auto dest: Authorize_Inr)
  from performAuthorization_Inr [OF pa] obtain acc :: Account where
    t1: "t1 = \<lparr>ID = newUUID e1, AccountID = AcctID acc, Type = AUTH_HOLD,
                 AmountCents = m, Currency = ''USD'', ReferenceID = None,
                 Status = ACTIVE, ExpiresAt = Some (now e1 + wrap64 (h * hour)),
                 CreatedAt = stamp e1\<rparr>"
    and fresh1: "\<not> list_ex (\<lambda>t. ID t = newUUID e1) (transactions s)"
    and s1: "s1 = \<lparr>accounts = map (adjust_row (AcctID acc) 0 (neg64 m)) (accounts s),
                 transactions = transactions s @ [t1]\<rparr>"
    by blast
  from C have pc: "performCapture e2 s1 (ID t1) m2 = Inr (t2, s2)"
    by (auto simp: Capture_def dest: in_transaction_Inr)
  from performCapture_Inr [OF pc] obtain a :: Transaction where
    a: "find (\<lambda>t. ID t = ID t1) (transactions s1) = Some a"
    and m2: "m2 = AmountCents a"
    and t2: "t2 = \<lparr>ID = newUUID e2, AccountID = AccountID a, Type = CAPTURE,
                 AmountCents = m2, Currency = Currency a,
                 ReferenceID = Some (ID t1), Status = COMPLETED,
                 ExpiresAt = None, CreatedAt = stamp e2\<rparr>"
    and fresh2: "\<not> list_ex (\<lambda>t. ID t = newUUID e2) (transactions s1)"
    and s2: "s2 = \<lparr>accounts = map (adjust_row (AccountID a) (neg64 m2) 0) (accounts s1),
                 transactions = map (set_status (ID t1) COMPLETED) (transactions s1 @ [t2])\<rparr>"
    by blast
  from a fresh1 have at1: "a = t1"
    by (simp add: s1 t1 find_append_fresh)
  from fresh2 have ne: "newUUID e2 \<noteq> newUUID e1"
    by (auto simp: s1 t1)
  from R have pr: "performRefund e3 s2 (ID t2) m3 = Inr (t3, s3)"
    by (auto simp: Refund_def dest: in_transaction_Inr)
  from performRefund_Inr [OF pr] obtain b :: Transaction where
    b: "find (\<lambda>t. ID t = ID t2) (transactions s2) = Some b"
    and m3: "m3 = AmountCents b"
    and s3: "accounts s3 = map (adjust_row (AccountID b) m3 m3) (accounts s2)"
    by auto
  have f2: "find (\<lambda>t. ID t = ID t2) (transactions s1 @ [t2]) = Some t2"
    using fresh2 by (simp add: find_append_fresh t2)
  have "find (\<lambda>t. ID t = ID t2) (transactions s2)
          = map_option (set_status (ID t1) COMPLETED)
              (find (\<lambda>t. ID t = ID t2) (transactions s1 @ [t2]))"
    unfolding s2 by (simp only: store.simps find_set_status)
  then have "b = set_status (ID t1) COMPLETED t2"
    using b f2 by simp
  then have bt2: "b = t2"
    using ne by (simp add: set_status_def t2 t1)
  show ?thesis
    using m by (simp add: s3 m3 bt2 t2 m2 at1 s2 s1 t1 adjust_row_comp neg64_pos adjust_row_id)
qed


section \<open>Ledger invariants\<close>

lemma holds_positive_Cons:
  "holds_positive (t # ts) \<longleftrightarrow> (Type t = AUTH_HOLD \<longrightarrow> 0 < AmountCents t) \<and> holds_positive ts"
  by (simp add: holds_positive_def)

lemma holds_positive_append:
  "holds_positive (ts @ [t]) \<longleftrightarrow> holds_positive ts \<and> (Type t = AUTH_HOLD \<longrightarrow> 0 < AmountCents t)"
  by (auto simp: holds_positive_def)

lemma holds_positive_set_status:
  "holds_positive (map (set_status i st) ts) = holds_positive ts"
  by (induction ts) (simp_all add: holds_positive_def set_status_def)

lemma holds_positive_find:
  "holds_positive ts \<Longrightarrow> find P ts = Some a \<Longrightarrow> Type a = AUTH_HOLD \<Longrightarrow> 0 < AmountCents a"
  by (induction ts) (auto simp: holds_positive_def split: if_splits)

lemma ledger_sum_append:
  "ledger_sum d (ts @ [t]) x = ledger_sum d ts x + (if AccountID t = x then d t else 0)"
  by (simp add: ledger_sum_def)

lemma set_status_fields:
  "ID (set_status i st t) = ID t" "AccountID (set_status i st t) = AccountID t"
  "Type (set_status i st t) = Type t" "AmountCents (set_status i st t) = AmountCents t"
  "posted_delta (set_status i st t) = posted_delta t"
  "available_delta (set_status i st t) = available_delta t"
  by (simp_all add: set_status_def posted_delta_def available_delta_def
      split: TransactionType.splits)

lemma set_status_hit: "ID t = i \<Longrightarrow> set_status i st t = t\<lparr>Status := st\<rparr>"
  by (simp add: set_status_def)

lemma set_status_miss: "ID t \<noteq> i \<Longrightarrow> set_status i st t = t"
  by (simp add: set_status_def)

lemma ledger_sum_set_status_posted:
  "ledger_sum posted_delta (map (set_status i st) ts) x = ledger_sum posted_delta ts x"
  by (induction ts) (simp_all add: ledger_sum_def set_status_fields)

lemma ledger_sum_set_status_available:
  "ledger_sum available_delta (map (set_status i st) ts) x = ledger_sum available_delta ts x"
  by (induction ts) (simp_all add: ledger_sum_def set_status_fields)

lemma held_append:
  "held (ts @ [t]) x = held ts x + (if is_active_hold t \<and> AccountID t = x then AmountCents t else 0)"
  by (simp add: held_def)

lemma held_nonneg: "holds_positive ts \<Longrightarrow> 0 \<le> held ts x"
  by (induction ts) (auto simp: held_def holds_positive_def is_active_hold_def)

lemma held_complete_le:
  "holds_positive ts \<Longrightarrow> held (map (set_status i COMPLETED) ts) x \<le> held ts x"
  by (induction ts) (auto simp: held_def holds_positive_def is_active_hold_def set_status_def)

lemma held_complete_found:
  "holds_positive ts \<Longrightarrow> find (\<lambda>t. ID t = i) ts = Some a \<Longrightarrow> is_active_hold a \<Longrightarrow>
     held (map (set_status i COMPLETED) ts) (AccountID a) + AmountCents a \<le> held ts (AccountID a)"
proof (induction ts)
  case Nil
  then show ?case by simp
next
  case (Cons t ts)
  show ?case
  proof (cases "ID t = i")
    case True
    with Cons.prems have "a = t" by simp
    moreover have "held (map (set_status i COMPLETED) ts) (AccountID a) \<le> held ts (AccountID a)"
      using Cons.prems(1) by (intro held_complete_le) (simp add: holds_positive_Cons)
    ultimately show ?thesis
      using Cons.prems(3) True by (simp add: held_def is_active_hold_def set_status_hit)
  next
    case False
    with Cons.prems have "find (\<lambda>t. ID t = i) ts = Some a" by simp
    with Cons.IH Cons.prems have
      "held (map (set_status i COMPLETED) ts) (AccountID a) + AmountCents a \<le> held ts (AccountID a)"
      by (simp add: holds_positive_Cons)
    then show ?thesis
      using False by (simp add: held_def set_status_miss)
  qed
qed


lemma deltas_hold:
  "Type t = AUTH_HOLD \<Longrightarrow> posted_delta t = 0 \<and> available_delta t = - AmountCents t"
  by (simp add: posted_delta_def available_delta_def)

lemma deltas_capture:
  "Type t = CAPTURE \<Longrightarrow> posted_delta t = - AmountCents t \<and> available_delta t = 0"
  by (simp add: posted_delta_def available_delta_def)

lemma deltas_void:
  "Type t = VOID \<Longrightarrow> posted_delta t = 0 \<and> available_delta t = AmountCents t"
  by (simp add: posted_delta_def available_delta_def)

lemma deltas_refund:
  "Type t = REFUND \<Longrightarrow> posted_delta t = AmountCents t \<and> available_delta t = AmountCents t"
  by (simp add: posted_delta_def available_delta_def)

lemma map_set_status_snoc:
  "map (set_status i st) (ts @ [t]) = map (set_status i st) ts @ [set_status i st t]"
  by simp

text \<open>
  What one committed request does to the books: it adds one ledger row, moves the two
  balances of that row's account by the row's deltas, and the active holds of every
  account grow by no more than the posted delta less the available delta.
\<close>

lemma exec_effect:
  assumes ex: "exec h e s r = Inr (t, s')"
    and pos: "holds_positive (transactions s)"
  shows "holds_positive (transactions s') \<and>
    accounts s' = map (adjust_row (AccountID t) (posted_delta t) (available_delta t)) (accounts s) \<and>
    (\<forall>x. ledger_sum posted_delta (transactions s') x
          = ledger_sum posted_delta (transactions s) x
            + (if AccountID t = x then posted_delta t else 0)) \<and>
    (\<forall>x. ledger_sum available_delta (transactions s') x
          = ledger_sum available_delta (transactions s) x
            + (if AccountID t = x then available_delta t else 0)) \<and>
    (\<forall>x. held (transactions s') x
          \<le> held (transactions s) x
            + (if AccountID t = x then posted_delta t - available_delta t else 0))"
proof (cases r)
  case (ReqAuthorize c v m)
  with ex have m: "0 < m" and pa: "performAuthorization h e s c v m = Inr (t, s')"
    by (auto dest: Authorize_Inr)
  from performAuthorization_Inr [OF pa] obtain acc :: Account where
    t: "t = \<lparr>ID = newUUID e, AccountID = AcctID acc, Type = AUTH_HOLD,
                 AmountCents = m, Currency = ''USD'', ReferenceID = None,
                 Status = ACTIVE, ExpiresAt = Some (now e + wrap64 (h * hour)),
                 CreatedAt = stamp e\<rparr>"
    and s': "s' = \<lparr>accounts = map (adjust_row (AcctID acc) 0 (neg64 m)) (accounts s),
                 transactions = transactions s @ [t]\<rparr>"
    by blast
  have ty: "Type t = AUTH_HOLD" "AmountCents t = m" "AccountID t = AcctID acc"
    "is_active_hold t"
    by (simp_all add: t is_active_hold_def)
  have tx: "transactions s' = transactions s @ [t]" and
    ac: "accounts s' = map (adjust_row (AcctID acc) 0 (- m)) (accounts s)"
    using m by (simp_all add: s' neg64_pos)
  show ?thesis
    using pos m deltas_hold [OF ty(1)]
    by (simp add: tx ac ty holds_positive_append ledger_sum_append held_append)
next
  case (ReqCapture i m)
  with ex have pc: "performCapture e s i m = Inr (t, s')"
    by (auto simp: Capture_def dest: in_transaction_Inr)
  from performCapture_Inr [OF pc] obtain a :: Transaction where
    a: "find (\<lambda>t. ID t = i) (transactions s) = Some a"
    and a_ty: "Type a = AUTH_HOLD" and a_st: "Status a = ACTIVE" and m: "m = AmountCents a"
    and t: "t = \<lparr>ID = newUUID e, AccountID = AccountID a, Type = CAPTURE,
                 AmountCents = m, Currency = Currency a,
                 ReferenceID = Some i, Status = COMPLETED,
                 ExpiresAt = None, CreatedAt = stamp e\<rparr>"
    and s': "s' = \<lparr>accounts = map (adjust_row (AccountID a) (neg64 m) 0) (accounts s),
                 transactions = map (set_status i COMPLETED) (transactions s @ [t])\<rparr>"
    by blast
  have mpos: "0 < m"
    using holds_positive_find [OF pos a a_ty] m by simp
  have ty: "Type t = CAPTURE" "AmountCents t = m" "AccountID t = AccountID a"
    by (simp_all add: t)
  have tx: "transactions s' = map (set_status i COMPLETED) (transactions s) @ [set_status i COMPLETED t]"
    and ac: "accounts s' = map (adjust_row (AccountID a) (- m) 0) (accounts s)"
    using mpos by (simp_all add: s' neg64_pos)
  have nh: "\<not> is_active_hold (set_status i COMPLETED t)"
    by (simp add: is_active_hold_def set_status_fields ty)
  have hs: "held (transactions s') x = held (map (set_status i COMPLETED) (transactions s)) x"
    for x
    using nh by (simp add: tx held_append)
  have act: "is_active_hold a"
    by (simp add: is_active_hold_def a_ty a_st)
  have h1: "held (transactions s') x \<le> held (transactions s) x" for x
    using held_complete_le [OF pos, of i x] by (simp add: hs)
  have h2: "held (transactions s') (AccountID a) + m \<le> held (transactions s) (AccountID a)"
    using held_complete_found [OF pos a act] m by (simp add: hs)
  have hd: "held (transactions s') x
          \<le> held (transactions s) x
            + (if AccountID t = x then posted_delta t - available_delta t else 0)" for x
    using h1 [of x] h2 deltas_capture [OF ty(1)] by (auto simp: ty)
  show ?thesis
    using pos deltas_capture [OF ty(1)] hd
    by (simp add: tx ac ty holds_positive_append holds_positive_set_status ledger_sum_append
        ledger_sum_set_status_posted ledger_sum_set_status_available set_status_fields)
next
  case (ReqVoid i)
  with ex have pv: "performVoid e s i = Inr (t, s')"
    by (auto simp: Void_def dest: in_transaction_Inr)
  from performVoid_Inr [OF pv] obtain a :: Transaction where
    a: "find (\<lambda>t. ID t = i) (transactions s) = Some a"
    and a_ty: "Type a = AUTH_HOLD" and a_st: "Status a = ACTIVE"
    and t: "t = \<lparr>ID = newUUID e, AccountID = AccountID a, Type = VOID,
                 AmountCents = AmountCents a, Currency = Currency a,
                 ReferenceID = Some i, Status = COMPLETED,
                 ExpiresAt = None, CreatedAt = stamp e\<rparr>"
    and s': "s' = \<lparr>accounts = map (adjust_row (AccountID a) 0 (AmountCents a)) (accounts s),
                 transactions = map (set_status i COMPLETED) (transactions s @ [t])\<rparr>"
    by blast
  have ty: "Type t = VOID" "AmountCents t = AmountCents a" "AccountID t = AccountID a"
    by (simp_all add: t)
  have tx: "transactions s' = map (set_status i COMPLETED) (transactions s) @ [set_status i COMPLETED t]"
    and ac: "accounts s' = map (adjust_row (AccountID a) 0 (AmountCents a)) (accounts s)"
    by (simp_all add: s')
  have nh: "\<not> is_active_hold (set_status i COMPLETED t)"
    by (simp add: is_active_hold_def set_status_fields ty)
  have hs: "held (transactions s') x = held (map (set_status i COMPLETED) (transactions s)) x"
    for x
    using nh by (simp add: tx held_append)
  have act: "is_active_hold a"
    by (simp add: is_active_hold_def a_ty a_st)
  have h1: "held (transactions s') x \<le> held (transactions s) x" for x
    using held_complete_le [OF pos, of i x] by (simp add: hs)
  have h2: "held (transactions s') (AccountID a) + AmountCents a
              \<le> held (transactions s) (AccountID a)"
    using held_complete_found [OF pos a act] by (simp add: hs)
  have hd: "held (transactions s') x
          \<le> held (transactions s) x
            + (if AccountID t = x then posted_delta t - available_delta t else 0)" for x
    using h1 [of x] h2 deltas_void [OF ty(1)] by (auto simp: ty)
  show ?thesis
    using pos deltas_void [OF ty(1)] hd
    by (simp add: tx ac ty holds_positive_append holds_positive_set_status ledger_sum_append
        ledger_sum_set_status_posted ledger_sum_set_status_available set_status_fields)
next
  case (ReqRefund i m)
  with ex have pr: "performRefund e s i m = Inr (t, s')"
    by (auto simp: Refund_def dest: in_transaction_Inr)
  from performRefund_Inr [OF pr] obtain a :: Transaction where
    t: "t = \<lparr>ID = newUUID e, AccountID = AccountID a, Type = REFUND,
                 AmountCents = m, Currency = Currency a,
                 ReferenceID = Some i, Status = COMPLETED,
                 ExpiresAt = None, CreatedAt = stamp e\<rparr>"
    and s': "s' = \<lparr>accounts = map (adjust_row (AccountID a) m m) (accounts s),
                 transactions = transactions s @ [t]\<rparr>"
    by blast
  have ty: "Type t = REFUND" "AmountCents t = m" "AccountID t = AccountID a"
    "\<not> is_active_hold t"
    by (simp_all add: t is_active_hold_def)
  have tx: "transactions s' = transactions s @ [t]" and
    ac: "accounts s' = map (adjust_row (AccountID a) m m) (accounts s)"
    by (simp_all add: s')
  show ?thesis
    using pos deltas_refund [OF ty(1)]
    by (simp add: tx ac ty holds_positive_append ledger_sum_append held_append)
qed

lemma adjust_row_fields:
  "AcctID (adjust_row x bd ad a) = AcctID a"
  "BalanceCents (adjust_row x bd ad a) = BalanceCents a + (if AcctID a = x then bd else 0)"
  "AvailableBalanceCents (adjust_row x bd ad a)
     = AvailableBalanceCents a + (if AcctID a = x then ad else 0)"
  by (simp_all add: adjust_row_def)

lemma ledger_matches_step:
  assumes lm: "ledger_matches s0 s"
    and pos: "holds_positive (transactions s)"
    and ex: "exec h e s r = Inr (t, s')"
  shows "ledger_matches s0 s'"
proof -
  note eff = exec_effect [OF ex pos]
  show ?thesis
    unfolding ledger_matches_def
    apply (simp only: eff [THEN conjunct2, THEN conjunct1] list_all2_map2)
    apply (rule list_all2_mono [OF lm [unfolded ledger_matches_def]])
    using eff by (auto simp: adjust_row_fields)
qed

lemma holds_covered_step:
  assumes hc: "holds_covered s"
    and pos: "holds_positive (transactions s)"
    and ex: "exec h e s r = Inr (t, s')"
  shows "holds_covered s'"
proof -
  note eff = exec_effect [OF ex pos]
  have hd: "held (transactions s') x
          \<le> held (transactions s) x
            + (if AccountID t = x then posted_delta t - available_delta t else 0)" for x
    using eff by blast
  have ac: "accounts s'
      = map (adjust_row (AccountID t) (posted_delta t) (available_delta t)) (accounts s)"
    using eff by blast
  show ?thesis
    unfolding holds_covered_def list_all_iff
  proof
    fix a' assume "a' \<in> set (accounts s')"
    then obtain a where a: "a \<in> set (accounts s)"
      and a': "a' = adjust_row (AccountID t) (posted_delta t) (available_delta t) a"
      by (auto simp: ac)
    from hc a have "AvailableBalanceCents a + held (transactions s) (AcctID a) \<le> BalanceCents a"
      by (simp add: holds_covered_def list_all_iff)
    with hd [of "AcctID a"]
    show "AvailableBalanceCents a' + held (transactions s') (AcctID a') \<le> BalanceCents a'"
      by (simp add: a' adjust_row_fields split: if_splits)
  qed
qed

lemma run_invariants:
  "holds_positive (transactions s) \<Longrightarrow>
     holds_positive (transactions (run h s ops)) \<and>
     (ledger_matches s0 s \<longrightarrow> ledger_matches s0 (run h s ops)) \<and>
     (holds_covered s \<longrightarrow> holds_covered (run h s ops))"
proof (induction ops arbitrary: s)
  case Nil
  then show ?case by simp
next
  case (Cons p ops)
  obtain e r where p: "p = (e, r)" by (cases p)
  show ?case
  proof (cases "exec h e s r")
    case (Inl err)
    with Cons p show ?thesis by simp
  next
    case (Inr res)
    obtain t s' where res: "res = (t, s')" by (cases res)
    from Inr res have ex: "exec h e s r = Inr (t, s')" by simp
    have pos': "holds_positive (transactions s')"
      using exec_effect [OF ex Cons.prems] by blast
    show ?thesis
      using Cons.IH [OF pos'] ledger_matches_step [OF _ Cons.prems ex]
        holds_covered_step [OF _ Cons.prems ex]
      by (auto simp: p ex)
  qed
qed

lemma ledger_matches_seed: "transactions s0 = [] \<Longrightarrow> ledger_matches s0 s0"
  by (simp add: ledger_matches_def ledger_sum_def list_all2_same)

lemma holds_covered_seed:
  "transactions s0 = [] \<Longrightarrow> available_le_balance s0 \<Longrightarrow> holds_covered s0"
  by (simp add: holds_covered_def available_le_balance_def held_def)

lemma holds_covered_available:
  "holds_covered s \<Longrightarrow> holds_positive (transactions s) \<Longrightarrow> available_le_balance s"
  unfolding holds_covered_def available_le_balance_def list_all_iff
proof
  fix a assume hc: "\<forall>a\<in>set (accounts s).
      AvailableBalanceCents a + held (transactions s) (AcctID a) \<le> BalanceCents a"
    and pos: "holds_positive (transactions s)" and a: "a \<in> set (accounts s)"
  from hc a have "AvailableBalanceCents a + held (transactions s) (AcctID a) \<le> BalanceCents a"
    by blast
  with held_nonneg [OF pos, of "AcctID a"] show "AvailableBalanceCents a \<le> BalanceCents a"
    by simp
qed

text \<open>
  Claim C1. From a seeded store (accounts and no ledger row), after any sequence of
  Authorize, Capture, Void and Refund requests, each changing the store only when it
  succeeds, every account row satisfies: the sum over its ledger rows of the signed posted
  deltas (AUTH_HOLD 0, CAPTURE -amount, VOID 0, REFUND +amount) is its current
  \<^verbatim>\<open>balance_cents\<close> less its initial \<^verbatim>\<open>balance_cents\<close>, and the sum of the signed available
  deltas (AUTH_HOLD -amount, CAPTURE 0, VOID +amount, REFUND +amount) is its current
  \<^verbatim>\<open>available_balance_cents\<close> less its initial one.
\<close>

theorem ledger_sum_invariant:
  "transactions s0 = [] \<Longrightarrow> ledger_matches s0 (run h s0 ops)"
  using run_invariants [of s0 h ops s0] ledger_matches_seed [of s0]
  by (simp add: holds_positive_def)

text \<open>
  Claim C6. \<^verbatim>\<open>available_balance_cents \<le> balance_cents\<close> is preserved: from a seeded store
  (accounts and no ledger row) in which every account satisfies it, every store reached by
  any sequence of Authorize, Capture, Void and Refund requests satisfies it for every
  account. (For a start with ledger rows, \<open>run_invariants\<close> asks that the active holds be
  positive and covered by the difference of the two balances.)
\<close>

theorem available_le_balance_invariant:
  "transactions s0 = [] \<Longrightarrow> available_le_balance s0 \<Longrightarrow> available_le_balance (run h s0 ops)"
  using run_invariants [of s0 h ops s0] holds_covered_seed [of s0]
    holds_covered_available [of "run h s0 ops"]
  by (simp add: holds_positive_def)

section \<open>Lookups by id\<close>

text \<open>
  Claim C10. A lookup that finds a row of another type than the endpoint's reports it as
  not found: \<open>GetAuthorization\<close> on a row that is not an AUTH_HOLD returns
  \<^verbatim>\<open>authorization_not_found\<close>, \<open>GetCapture\<close> on a row that is not a CAPTURE returns
  \<^verbatim>\<open>capture_not_found\<close>, and \<open>GetRefund\<close> on a row that is not a REFUND returns
  \<^verbatim>\<open>refund_not_found\<close>.
\<close>

theorem get_wrong_type_not_found:
  "(FindByID e s i = Inr txn \<and> Type txn \<noteq> AUTH_HOLD \<longrightarrow>
      GetAuthorization e s i
        = Inl (ServiceError ''authorization_not_found'' ''authorization not found'')) \<and>
   (FindByID e s i = Inr txn \<and> Type txn \<noteq> CAPTURE \<longrightarrow>
      GetCapture e s i = Inl (ServiceError ''capture_not_found'' ''capture not found'')) \<and>
   (FindByID e s i = Inr txn \<and> Type txn \<noteq> REFUND \<longrightarrow>
      GetRefund e s i = Inl (ServiceError ''refund_not_found'' ''refund not found''))"
  by (simp add: GetAuthorization_def GetCapture_def GetRefund_def)

lemma find_hold_row: "FindByID (env_at 2000 11 []) store_with_hold 10 = Inr hold_row"
  by (simp add: FindByID_def fails_def env_at_def store_with_hold_def hold_row_def)

theorem get_wrong_type_not_found_witness:
  "FindByID (env_at 2000 11 []) store_with_hold 10 = Inr hold_row \<and>
   Type hold_row \<noteq> CAPTURE \<and> Type hold_row \<noteq> REFUND \<and>
   GetCapture (env_at 2000 11 []) store_with_hold 10
     = Inl (ServiceError ''capture_not_found'' ''capture not found'') \<and>
   GetRefund (env_at 2000 11 []) store_with_hold 10
     = Inl (ServiceError ''refund_not_found'' ''refund not found'')"
proof -
  have ty: "Type hold_row \<noteq> CAPTURE" "Type hold_row \<noteq> REFUND"
    by (simp_all add: hold_row_def)
  note w = get_wrong_type_not_found [of "env_at 2000 11 []" store_with_hold 10 hold_row]
  from w find_hold_row ty(1) have c: "GetCapture (env_at 2000 11 []) store_with_hold 10
     = Inl (ServiceError ''capture_not_found'' ''capture not found'')"
    by blast
  from w find_hold_row ty(2) have r: "GetRefund (env_at 2000 11 []) store_with_hold 10
     = Inl (ServiceError ''refund_not_found'' ''refund not found'')"
    by blast
  show ?thesis
    by (intro conjI find_hold_row ty c r)
qed

section \<open>The checks of a capture\<close>

lemma list_ex_find: "list_ex P xs \<longleftrightarrow> find P xs \<noteq> None"
  by (induction xs) auto

lemma reference_conflict_capture:
  "Type t = CAPTURE \<Longrightarrow> ReferenceID t = Some r \<Longrightarrow>
     reference_conflict (transactions s) t = has_capture s r"
  by (simp add: reference_conflict_def has_capture_def)

lemma in_transaction_outcome:
  "outcome_of (in_transaction e b)
     = (if fails e CallBeginTx then Rejected ''internal_error''
        else if outcome_of b = Accepted \<and> fails e CallCommit then Rejected ''internal_error''
        else outcome_of b)"
proof (cases b)
  case (Inl err)
  then show ?thesis
    by (cases err) (simp_all add: in_transaction_def)
next
  case (Inr r)
  then show ?thesis
    by (simp add: in_transaction_def)
qed

lemma performCapture_checks:
  "\<not> fails e CallBeginTx \<Longrightarrow>
     (if outcome_of (performCapture e s authID amount) = Accepted \<and> fails e CallCommit
      then Rejected ''internal_error''
      else outcome_of (performCapture e s authID amount))
     = amended_capture_outcome e s authID amount"
proof (cases "fails e CallFindTransaction")
  case True
  assume "\<not> fails e CallBeginTx"
  with True show ?thesis
    by (simp add: performCapture_def FindByIDForUpdate_def FindByID_def amended_capture_outcome_def)
next
  case nf: False
  assume nb: "\<not> fails e CallBeginTx"
  show ?thesis
  proof (cases "find (\<lambda>t. ID t = authID) (transactions s)")
    case None
    with nf nb show ?thesis
      by (simp add: performCapture_def FindByIDForUpdate_def FindByID_def
          amended_capture_outcome_def)
  next
    case (Some a)
    then have ex: "list_ex (\<lambda>t. ID t = authID) (transactions s)"
      by (simp add: list_ex_find)
    from nf nb Some ex show ?thesis
      by (simp add: performCapture_def FindByIDForUpdate_def FindByID_def
          amended_capture_outcome_def in_the_past_def Let_def Create_def
          reference_conflict_capture
          UpdateStatus_def AdjustBalances_def out_of_range_def
          split: option.splits)
  qed
qed

text \<open>
  Claim C4, amended. Provided the transaction begins, \<open>Capture\<close> fails with
  \<^verbatim>\<open>authorization_not_found\<close> when the lookup finds no transaction with the id (a failing
  lookup counts as none) or the row found is not an AUTH_HOLD; otherwise with
  \<^verbatim>\<open>authorization_already_used\<close> when its status is not ACTIVE; otherwise with
  \<^verbatim>\<open>authorization_expired\<close> when \<^verbatim>\<open>expires_at\<close> is in the past; otherwise with
  \<^verbatim>\<open>amount_mismatch\<close> when the amount differs from the hold's; otherwise with
  \<^verbatim>\<open>already_captured\<close> when the insert of the CAPTURE row conflicts on
  (reference_id, type); in this order. Otherwise it succeeds, unless a database call
  fails: a failing insert gives an untyped error, and a failing status update, balance
  adjustment or commit gives \<^verbatim>\<open>internal_error\<close>, as does a transaction that cannot begin,
  before any check.
\<close>

theorem Capture_outcome:
  "outcome_of (Capture e s authID amount) = amended_capture_outcome e s authID amount"
proof (cases "fails e CallBeginTx")
  case True
  then show ?thesis
    by (simp add: Capture_def in_transaction_outcome amended_capture_outcome_def)
next
  case False
  then show ?thesis
    using performCapture_checks [of e s authID amount]
    by (simp add: Capture_def in_transaction_outcome)
qed

theorem Capture_outcome_witness:
  "outcome_of (Capture (env_at 2000 11 []) store_with_hold 10 10000) = Accepted \<and>
   outcome_of (Capture (env_at 2000 11 [CallAdjustBalances]) store_with_hold 10 10000)
     = Rejected ''internal_error'' \<and>
   outcome_of (Capture (env_at 2000 11 [CallCommit]) store_with_hold 10 10000)
     = Rejected ''internal_error'' \<and>
   outcome_of (Capture (env_at 2000 11 [CallBeginTx]) store_with_hold 10 5000)
     = Rejected ''internal_error'' \<and>
   outcome_of (Capture (env_at 2000 11 [CallCreate]) store_with_hold 10 10000) = Failed \<and>
   outcome_of (Capture (env_at 2000 11 []) store_with_hold 10 5000)
     = Rejected ''amount_mismatch'' \<and>
   outcome_of (Capture (env_at 2000 11 []) store_with_hold 99 10000)
     = Rejected ''authorization_not_found''"
proof -
  have a: "amended_capture_outcome (env_at 2000 11 []) store_with_hold 10 10000 = Accepted"
    by code_simp
  have b: "amended_capture_outcome (env_at 2000 11 [CallAdjustBalances]) store_with_hold 10 10000
      = Rejected ''internal_error''"
    by code_simp
  have c: "amended_capture_outcome (env_at 2000 11 [CallCommit]) store_with_hold 10 10000
      = Rejected ''internal_error''"
    by code_simp
  have d: "amended_capture_outcome (env_at 2000 11 [CallBeginTx]) store_with_hold 10 5000
      = Rejected ''internal_error''"
    by code_simp
  have f: "amended_capture_outcome (env_at 2000 11 [CallCreate]) store_with_hold 10 10000
      = Failed"
    by code_simp
  have g: "amended_capture_outcome (env_at 2000 11 []) store_with_hold 10 5000
      = Rejected ''amount_mismatch''"
    by code_simp
  have h: "amended_capture_outcome (env_at 2000 11 []) store_with_hold 99 10000
      = Rejected ''authorization_not_found''"
    by code_simp
  show ?thesis
    using Capture_outcome [of "env_at 2000 11 []" store_with_hold 10 10000]
      Capture_outcome [of "env_at 2000 11 [CallAdjustBalances]" store_with_hold 10 10000]
      Capture_outcome [of "env_at 2000 11 [CallCommit]" store_with_hold 10 10000]
      Capture_outcome [of "env_at 2000 11 [CallBeginTx]" store_with_hold 10 5000]
      Capture_outcome [of "env_at 2000 11 [CallCreate]" store_with_hold 10 10000]
      Capture_outcome [of "env_at 2000 11 []" store_with_hold 10 5000]
      Capture_outcome [of "env_at 2000 11 []" store_with_hold 99 10000]
    by (simp only: a b c d f g h)
qed

text \<open>
  The claim as first stated ends with "Capture succeeds otherwise". With an active hold
  of the right amount, not expired and not captured, and a database that fails the status
  update, none of the five checks rejects the request, and the capture fails with
  \<^verbatim>\<open>internal_error\<close>.
\<close>

theorem capture_succeeds_otherwise_counterexample:
  "claimed_capture_outcome (env_at 2000 11 [CallUpdateStatus]) store_with_hold 10 10000 = Accepted \<and>
   outcome_of (Capture (env_at 2000 11 [CallUpdateStatus]) store_with_hold 10 10000)
     = Rejected ''internal_error''"
  by code_simp

text \<open>
  One capture after another: once a capture of an authorization has committed, a further
  capture of it that reaches the lookup is rejected with
  \<^verbatim>\<open>authorization_already_used\<close>, whatever its amount.
\<close>

lemma find_append_found:
  "find P xs = Some x \<Longrightarrow> find P (xs @ ys) = Some x"
  by (induction xs) (auto split: if_splits)

lemma second_capture_rejected:
  assumes first: "Capture e1 s i m = Inr (t, s')"
    and db: "\<not> fails e2 CallBeginTx" "\<not> fails e2 CallFindTransaction"
  shows "Capture e2 s' i m2
     = Inl (ServiceError ''authorization_already_used''
              ''authorization has already been completed or cancelled'')"
proof -
  from first have pc: "performCapture e1 s i m = Inr (t, s')"
    by (auto simp: Capture_def dest: in_transaction_Inr)
  from performCapture_Inr [OF pc] obtain a :: Transaction where
    a: "find (\<lambda>t. ID t = i) (transactions s) = Some a"
    and a_ty: "Type a = AUTH_HOLD"
    and tx: "transactions s' = map (set_status i COMPLETED) (transactions s @ [t])"
    by auto
  from a have ida: "ID a = i"
    by (auto dest: find_Some_list_ex)
  have "find (\<lambda>t. ID t = i) (transactions s')
      = Some (set_status i COMPLETED a)"
    unfolding tx by (simp only: find_set_status find_append_found [OF a] option.map)
  then show ?thesis
    using db a_ty ida
    by (simp add: Capture_def in_transaction_def performCapture_def FindByIDForUpdate_def
        FindByID_def set_status_fields set_status_hit)
qed

section \<open>HTTP status of an internal error\<close>

text \<open>
  Claim C8, at the input where the handlers part from it: a \<^verbatim>\<open>ServiceError\<close> with the code
  \<^verbatim>\<open>internal_error\<close>, which every service returns when the database fails to begin or
  commit the transaction or to adjust the balance, is answered with HTTP 400 and the code
  \<^verbatim>\<open>internal_error\<close>, not with HTTP 500. Here the capture of an active hold meets a
  database that cannot begin a transaction.
\<close>

theorem internal_error_answered_400:
  "handleCaptureError (ServiceError ''internal_error'' m) = JSON400 ''internal_error'' m \<and>
   handleVoidError (ServiceError ''internal_error'' m) = JSON400 ''internal_error'' m \<and>
   handleRefundError (ServiceError ''internal_error'' m) = JSON400 ''internal_error'' m \<and>
   handleAuthorizationError (ServiceError ''internal_error'' m) = JSON400 ''internal_error'' m \<and>
   Capture (env_at 2000 11 [CallBeginTx]) store_with_hold 10 10000
     = Inl (ServiceError ''internal_error'' ''failed to start transaction'') \<and>
   http_status (fst (CreateCapture (\<lambda>x. Some 10) (env_at 2000 11 [CallBeginTx]) store_with_hold
       ''auth_00000000-0000-0000-0000-00000000000a'' 10000)) = 400"
  by (simp add: handleCaptureError_def handleVoidError_def handleRefundError_def
      handleAuthorizationError_def mapServiceErrorToCode_def isPaymentRequiredError_def
      CreateCapture_def parseAuthorizationID_def parseIDWithPrefix_def Capture_def
      in_transaction_def fails_def env_at_def)

text \<open>
  The rest of the mapping is as the claim says: an error that is not a \<^verbatim>\<open>ServiceError\<close>
  is answered 500 with \<^verbatim>\<open>internal_error\<close>, a \<^verbatim>\<open>ServiceError\<close> 400, but 402 for
  \<^verbatim>\<open>insufficient_funds\<close> from an authorization, and a success 200.
\<close>

lemma handler_status_mapping:
  "handleAuthorizationError (UntypedError m) = JSON500 ''internal_error'' ''internal error''"
  "handleCaptureError (UntypedError m) = JSON500 ''internal_error'' ''internal error''"
  "handleVoidError (UntypedError m) = JSON500 ''internal_error'' ''internal error''"
  "handleRefundError (UntypedError m) = JSON500 ''internal_error'' ''internal error''"
  "http_status (handleAuthorizationError (ServiceError c m))
     = (if c = ''insufficient_funds'' then 402 else 400)"
  "http_status (handleCaptureError (ServiceError c m)) = 400"
  "http_status (handleVoidError (ServiceError c m)) = 400"
  "http_status (handleRefundError (ServiceError c m)) = 400"
  by (simp_all add: handleCaptureError_def handleVoidError_def handleRefundError_def
      handleAuthorizationError_def isPaymentRequiredError_def Let_def)

lemma handler_success_200:
  "Authorize h e s c v m = Inr (t, s') \<Longrightarrow>
     http_status (fst (CreateAuthorization h e s c v m)) = 200"
  "Capture e s i m = Inr (t, s') \<Longrightarrow> parseAuthorizationID p x = Some i \<Longrightarrow>
     http_status (fst (CreateCapture p e s x m)) = 200"
  "Void e s i = Inr (t, s') \<Longrightarrow> parseAuthorizationID p x = Some i \<Longrightarrow>
     http_status (fst (CreateVoid p e s x)) = 200"
  "Refund e s i m = Inr (t, s') \<Longrightarrow> parseCaptureID p x = Some i \<Longrightarrow>
     http_status (fst (CreateRefund p e s x m)) = 200"
  by (simp_all add: CreateAuthorization_def CreateCapture_def CreateVoid_def CreateRefund_def)


section \<open>Idempotency replay\<close>

lemma foldl_rc_call:
  "forwarded (foldl rc_call rc cs) = forwarded rc @ cs \<and>
   statusCode (foldl rc_call rc cs) = written_status (statusCode rc) cs \<and>
   body (foldl rc_call rc cs) = body rc @ written_body cs"
proof (induction cs arbitrary: rc)
  case Nil
  then show ?case by simp
next
  case (Cons c cs)
  show ?case
    by (cases c) (simp_all add: Cons.IH)
qed

lemma capture_of_handler:
  "forwarded (foldl rc_call newResponseCapture cs) = cs"
  "statusCode (foldl rc_call newResponseCapture cs) = written_status 200 cs"
  "body (foldl rc_call newResponseCapture cs) = written_body cs"
  by (simp_all add: foldl_rc_call newResponseCapture_def)

lemma requiresIdempotency_iff:
  "requiresIdempotency r \<longleftrightarrow> Method r = ''POST'' \<and> URLPath r \<in> set idempotentPaths"
  by (auto simp: requiresIdempotency_def list_ex_iff)

lemma IdemGet_miss:
  "IdemGet e keys k p = Inr None \<Longrightarrow>
     \<not> fails e CallIdemGet \<and> \<not> list_ex (\<lambda>r. Key r = k \<and> RequestPath r = p) keys"
  by (auto simp: IdemGet_def list_ex_find split: if_splits)

lemma fails_more: "fails (e\<lparr>failing := c # failing e\<rparr>) d \<longleftrightarrow> d = c \<or> fails e d"
  by (auto simp: fails_def)

text \<open>
  Claim C7. For a POST to one of the four mutating paths that carries an
  \<^verbatim>\<open>Idempotency-Key\<close>: when the lookup of (key, normalized path) returns a record, the
  middleware answers with the stored status and body, sets \<^verbatim>\<open>Content-Type:
  application/json\<close> and \<^verbatim>\<open>X-Idempotent-Replayed: true\<close>, and does not invoke the handler;
  when the lookup returns no record, it invokes the handler, passes its response on, and
  calls the store with (key, path, status, body) exactly when the status the handler
  wrote is in [200, 300); whether the store then fails does not change the response.
\<close>

theorem Idempotency_spec:
  "Method r = ''POST'' \<and> URLPath r \<in> set idempotentPaths \<and> HeaderIdempotencyKey r \<noteq> [] \<longrightarrow>
     (\<forall>cached.
        IdemGet e keys (HeaderIdempotencyKey r) (normalizeRequestPath (URLPath r))
          = Inr (Some cached) \<longrightarrow>
        response (Idempotency e keys next r)
          = [SetHeader ''Content-Type'' ''application/json'',
             SetHeader ''X-Idempotent-Replayed'' ''true'',
             WriteHeader (ResponseStatus cached), Write (ResponseBody cached)] \<and>
        \<not> handlerInvoked (Idempotency e keys next r) \<and>
        storeCall (Idempotency e keys next r) = None \<and>
        keysAfter (Idempotency e keys next r) = keys) \<and>
     (IdemGet e keys (HeaderIdempotencyKey r) (normalizeRequestPath (URLPath r)) = Inr None \<longrightarrow>
        handlerInvoked (Idempotency e keys next r) \<and>
        response (Idempotency e keys next r) = next r \<and>
        storeCall (Idempotency e keys next r)
          = (if 200 \<le> written_status 200 (next r) \<and> written_status 200 (next r) < 300
             then Some \<lparr>Key = HeaderIdempotencyKey r,
                        RequestPath = normalizeRequestPath (URLPath r),
                        ResponseBody = written_body (next r),
                        ResponseStatus = written_status 200 (next r),
                        StoredAt = now e\<rparr>
             else None) \<and>
        keysAfter (Idempotency e keys next r)
          = (case storeCall (Idempotency e keys next r) of
               None \<Rightarrow> keys
             | Some k \<Rightarrow> if fails e CallIdemStore then keys else keys @ [k])) \<and>
     response (Idempotency (e\<lparr>failing := CallIdemStore # failing e\<rparr>) keys next r)
       = response (Idempotency e keys next r)"
proof (intro impI conjI allI)
  fix cached
  assume "Method r = ''POST'' \<and> URLPath r \<in> set idempotentPaths \<and> HeaderIdempotencyKey r \<noteq> []"
    and "IdemGet e keys (HeaderIdempotencyKey r) (normalizeRequestPath (URLPath r))
          = Inr (Some cached)"
  then have hit: "Idempotency e keys next r
      = \<lparr>response = [SetHeader ''Content-Type'' ''application/json'',
             SetHeader ''X-Idempotent-Replayed'' ''true'',
             WriteHeader (ResponseStatus cached), Write (ResponseBody cached)],
         handlerInvoked = False, storeCall = None, keysAfter = keys, errorLog = []\<rparr>"
    by (simp add: Idempotency_def requiresIdempotency_iff Let_def)
  show "response (Idempotency e keys next r)
          = [SetHeader ''Content-Type'' ''application/json'',
             SetHeader ''X-Idempotent-Replayed'' ''true'',
             WriteHeader (ResponseStatus cached), Write (ResponseBody cached)]"
    "\<not> handlerInvoked (Idempotency e keys next r)"
    "storeCall (Idempotency e keys next r) = None"
    "keysAfter (Idempotency e keys next r) = keys"
    by (simp_all add: hit)
next
  assume req: "Method r = ''POST'' \<and> URLPath r \<in> set idempotentPaths \<and> HeaderIdempotencyKey r \<noteq> []"
    and miss: "IdemGet e keys (HeaderIdempotencyKey r) (normalizeRequestPath (URLPath r)) = Inr None"
  note fresh = IdemGet_miss [OF miss]
  show "handlerInvoked (Idempotency e keys next r)"
    using req miss
    by (simp add: Idempotency_def requiresIdempotency_iff Let_def pass_through_def
        split: sum.splits)
  show "response (Idempotency e keys next r) = next r"
    using req miss
    by (simp add: Idempotency_def requiresIdempotency_iff Let_def pass_through_def
        capture_of_handler split: sum.splits)
  show sc: "storeCall (Idempotency e keys next r)
          = (if 200 \<le> written_status 200 (next r) \<and> written_status 200 (next r) < 300
             then Some \<lparr>Key = HeaderIdempotencyKey r,
                        RequestPath = normalizeRequestPath (URLPath r),
                        ResponseBody = written_body (next r),
                        ResponseStatus = written_status 200 (next r),
                        StoredAt = now e\<rparr>
             else None)"
    using req miss
    by (simp add: Idempotency_def requiresIdempotency_iff Let_def pass_through_def
        capture_of_handler shouldCacheResponse_def split: sum.splits)
  show "keysAfter (Idempotency e keys next r)
          = (case storeCall (Idempotency e keys next r) of
               None \<Rightarrow> keys
             | Some k \<Rightarrow> if fails e CallIdemStore then keys else keys @ [k])"
    unfolding sc using req miss fresh
    by (simp add: Idempotency_def requiresIdempotency_iff Let_def pass_through_def
        capture_of_handler shouldCacheResponse_def IdemStore_def split: sum.splits)
next
  have get: "IdemGet (e\<lparr>failing := CallIdemStore # failing e\<rparr>) keys k p = IdemGet e keys k p"
    for k p
    by (simp add: IdemGet_def fails_more)
  show "response (Idempotency (e\<lparr>failing := CallIdemStore # failing e\<rparr>) keys next r)
       = response (Idempotency e keys next r)"
    by (simp add: Idempotency_def Let_def pass_through_def get
        split: sum.splits option.splits)
qed

theorem Idempotency_spec_witness:
  "response (Idempotency (env_at 3000 12 []) [] ok_handler capture_request)
     = ok_handler capture_request \<and>
   handlerInvoked (Idempotency (env_at 3000 12 []) [] ok_handler capture_request) \<and>
   storeCall (Idempotency (env_at 3000 12 []) [] ok_handler capture_request)
     = Some cached_capture \<and>
   keysAfter (Idempotency (env_at 3000 12 []) [] ok_handler capture_request)
     = [cached_capture] \<and>
   response (Idempotency (env_at 4000 13 []) [cached_capture] ok_handler capture_request)
     = [SetHeader ''Content-Type'' ''application/json'',
        SetHeader ''X-Idempotent-Replayed'' ''true'', WriteHeader 200, Write ''captured''] \<and>
   \<not> handlerInvoked (Idempotency (env_at 4000 13 []) [cached_capture] ok_handler capture_request)"
proof -
  have pre: "Method capture_request = ''POST'' \<and> URLPath capture_request \<in> set idempotentPaths \<and>
      HeaderIdempotencyKey capture_request \<noteq> []"
    by (simp add: capture_request_def idempotentPaths_def)
  have miss: "IdemGet (env_at 3000 12 []) [] (HeaderIdempotencyKey capture_request)
      (normalizeRequestPath (URLPath capture_request)) = Inr None"
    by (simp add: IdemGet_def fails_def env_at_def)
  have hit: "IdemGet (env_at 4000 13 []) [cached_capture] (HeaderIdempotencyKey capture_request)
      (normalizeRequestPath (URLPath capture_request)) = Inr (Some cached_capture)"
    by (simp add: IdemGet_def fails_def env_at_def cached_capture_def capture_request_def
        normalizeRequestPath_def)
  note m = Idempotency_spec [of capture_request "env_at 3000 12 []" "[]" ok_handler,
      THEN mp, OF pre, THEN conjunct2, THEN conjunct1, THEN mp, OF miss]
  note h = Idempotency_spec [of capture_request "env_at 4000 13 []" "[cached_capture]" ok_handler,
      THEN mp, OF pre, THEN conjunct1, THEN spec, THEN mp, OF hit]
  have sc: "storeCall (Idempotency (env_at 3000 12 []) [] ok_handler capture_request)
     = Some cached_capture"
    using m by (simp add: ok_handler_def capture_request_def normalizeRequestPath_def
        env_at_def cached_capture_def)
  have ka: "keysAfter (Idempotency (env_at 3000 12 []) [] ok_handler capture_request)
     = [cached_capture]"
    using m by (simp add: sc) (simp add: fails_def env_at_def)
  show ?thesis
    using m h by (simp add: sc ka) (simp add: cached_capture_def)
qed

section \<open>Authorization\<close>







lemma authorize_seed:
  "Authorize 168 (env_at 1000 10 []) seed_store ''4111111111111111'' ''123'' 10000
     = Inr (hold_row, store_with_hold)"
  by code_simp



section \<open>Round trips\<close>

text \<open>
  Claim C2. A successful Authorize of an amount followed by a successful Void of that
  authorization leaves every account with the posted and available balances it had before
  the Authorize; so does a successful Authorize followed by a successful Capture of it
  and a successful Refund of that capture.
\<close>

theorem round_trip_balances:
  "(Authorize h e1 s c v m = Inr (t1, s1) \<and> Void e2 s1 (ID t1) = Inr (t2, s2) \<longrightarrow>
      accounts s2 = accounts s) \<and>
   (Authorize h e1 s c v m = Inr (t1, s1) \<and> Capture e2 s1 (ID t1) m2 = Inr (t2', s2') \<and>
    Refund e3 s2' (ID t2') m3 = Inr (t3, s3) \<longrightarrow>
      accounts s3 = accounts s)"
  using authorize_void [of h e1 s c v m t1 s1 e2 t2 s2]
    authorize_capture_refund [of h e1 s c v m t1 s1 e2 m2 t2' s2' e3 m3 t3 s3]
  by blast

lemma example_void:
  "Void (env_at 2000 11 []) store_with_hold (ID hold_row)
     = Inr (projr (Void (env_at 2000 11 []) store_with_hold 10))"
  by code_simp

lemma example_capture:
  "Capture (env_at 2000 11 []) store_with_hold (ID hold_row) 10000
     = Inr (projr (Capture (env_at 2000 11 []) store_with_hold 10 10000))"
  by code_simp

lemma example_refund:
  "Refund (env_at 3000 12 [])
       (snd (projr (Capture (env_at 2000 11 []) store_with_hold 10 10000)))
       (ID (fst (projr (Capture (env_at 2000 11 []) store_with_hold 10 10000)))) 10000
     = Inr (projr (Refund (env_at 3000 12 [])
         (snd (projr (Capture (env_at 2000 11 []) store_with_hold 10 10000))) 11 10000))"
  by code_simp

lemma example_capture_balances:
  "map (\<lambda>a. (BalanceCents a, AvailableBalanceCents a))
       (accounts (snd (projr (Capture (env_at 2000 11 []) store_with_hold 10 10000))))
     = [(990000, 990000), (50000, 50000), (0, 0), (500000, 500000)]"
  by code_simp

theorem round_trip_balances_witness:
  "accounts (snd (projr (Void (env_at 2000 11 []) store_with_hold 10))) = accounts seed_store \<and>
   accounts (snd (projr (Refund (env_at 3000 12 [])
         (snd (projr (Capture (env_at 2000 11 []) store_with_hold 10 10000))) 11 10000)))
     = accounts seed_store"
proof -
  let ?v = "projr (Void (env_at 2000 11 []) store_with_hold 10)"
  let ?c = "projr (Capture (env_at 2000 11 []) store_with_hold 10 10000)"
  let ?r = "projr (Refund (env_at 3000 12 []) (snd ?c) 11 10000)"
  note w = round_trip_balances [of 168 "env_at 1000 10 []" seed_store "''4111111111111111''"
      "''123''" 10000 hold_row store_with_hold "env_at 2000 11 []" "fst ?v" "snd ?v"
      10000 "fst ?c" "snd ?c" "env_at 3000 12 []" 10000 "fst ?r" "snd ?r"]
  have v: "Void (env_at 2000 11 []) store_with_hold (ID hold_row) = Inr (fst ?v, snd ?v)"
    using example_void by simp
  have c: "Capture (env_at 2000 11 []) store_with_hold (ID hold_row) 10000
      = Inr (fst ?c, snd ?c)"
    using example_capture by simp
  have r: "Refund (env_at 3000 12 []) (snd ?c) (ID (fst ?c)) 10000 = Inr (fst ?r, snd ?r)"
    using example_refund by simp
  show ?thesis
    by (intro conjI w [THEN conjunct1, THEN mp] w [THEN conjunct2, THEN mp] authorize_seed v c r)
qed

section \<open>A run on the seeded store\<close>

text \<open>
  The example run commits an authorization and its capture, an authorization and its void,
  and a third authorization; these are the balances and the ledger it leaves.
\<close>

lemma example_run_balances:
  "map (\<lambda>a. (BalanceCents a, AvailableBalanceCents a)) (accounts (run 168 seed_store example_run))
     = [(990000, 989300), (50000, 50000), (0, 0), (500000, 500000)] \<and>
   map (\<lambda>t. (ID t, Type t, AmountCents t, Status t)) (transactions (run 168 seed_store example_run))
     = [(10, AUTH_HOLD, 10000, COMPLETED), (11, CAPTURE, 10000, COMPLETED),
        (12, AUTH_HOLD, 2500, COMPLETED), (13, VOID, 2500, COMPLETED),
        (14, AUTH_HOLD, 700, ACTIVE)]"
  by code_simp

theorem ledger_sum_invariant_witness:
  "transactions seed_store = [] \<and> ledger_matches seed_store (run 168 seed_store example_run)"
proof -
  have e: "transactions seed_store = []"
    by (simp add: seed_store_def)
  show ?thesis
    by (intro conjI e ledger_sum_invariant [OF e])
qed

theorem available_le_balance_invariant_witness:
  "transactions seed_store = [] \<and> available_le_balance seed_store \<and>
   available_le_balance (run 168 seed_store example_run)"
proof -
  have e: "transactions seed_store = []"
    by (simp add: seed_store_def)
  have a: "available_le_balance seed_store"
    by (simp add: seed_store_def available_le_balance_def)
  show ?thesis
    by (intro conjI e a available_le_balance_invariant [OF e a])
qed

end
